theory Spec2Isabelle
  imports Complex_Main "HOL-Library.Word"
begin

section \<open>The vSphere session and provider of vm-operator\<close>

text \<open>
  A shallow embedding of \<^verbatim>\<open>pkg/vmprovider/providers/vsphere/session.go\<close> (the file
  holds the session and, after it, the provider facade). Every value that comes from
  outside these two files (the finder, the resource VM wrapper, the content library, the
  network providers, the delete sequence, the session manager) is a field of the record
  \<open>backend\<close>; the state threaded through the code is the list of the calls made so far.
\<close>

subsection \<open>Quantities: \<^verbatim>\<open>memoryQuantityToMb\<close> and \<^verbatim>\<open>cpuQuantityToMhz\<close>\<close>

text \<open>
  \<^verbatim>\<open>resource.Quantity\<close> is a type of the Kubernetes library. The code reads it through
  \<^verbatim>\<open>q.Value()\<close> (an \<^verbatim>\<open>int64\<close>) and \<^verbatim>\<open>q.IsZero()\<close> only, so a quantity is
  the pair of these two readings.
\<close>

record Quantity =
  Value :: int
  IsZero :: bool

text \<open>
  \<^verbatim>\<open>float64(q.Value())\<close>: Go converts an \<^verbatim>\<open>int64\<close> to the nearest IEEE 754
  double, ties to the even significand. A double has a significand of 53 bits, so a value
  of magnitude below \<open>2 ^ 53\<close> converts exactly and a larger one loses its low bits.
  \<open>ulp_shift a\<close> is the number of low bits of \<open>a\<close> that do not fit, and
  \<open>round_half_even n d\<close> is the integer nearest to \<open>n / d\<close>, the even one of two.
  The result of the conversion is always an integer, so it is kept as an \<open>int\<close>.
\<close>

function ulp_shift :: "nat \<Rightarrow> nat" where
  "ulp_shift a = (if a < 2 ^ 53 then 0 else Suc (ulp_shift (a div 2)))"
  by pat_completeness auto
termination
  by (relation "measure (\<lambda>a. a)") auto

definition round_half_even :: "nat \<Rightarrow> nat \<Rightarrow> nat" where
  "round_half_even n d =
     (let q = n div d; r = n mod d
      in if d < 2 * r \<or> (2 * r = d \<and> odd q) then q + 1 else q)"

definition float64 :: "int \<Rightarrow> int" where
  "float64 v =
     (let a = nat \<bar>v\<bar>; e = ulp_shift a
      in sgn v * int (round_half_even a (2 ^ e) * 2 ^ e))"

text \<open>
  \<^verbatim>\<open>int64(math.Ceil(x / float64(d)))\<close> for a double \<open>x\<close> with an integer value and
  a divisor \<open>d\<close> that is a double itself (\<open>1024 * 1024\<close> and \<open>1000 * 1000\<close> in the
  code). The quotient of two doubles is the double nearest to the exact quotient, ties to
  even: the exact quotient \<open>a / d\<close> of the magnitudes is scaled by \<open>2 ^ s\<close>, with
  \<open>s\<close> the least shift that gives it 53 bits before the point (\<open>quotient_shift\<close>;
  for a converted \<^verbatim>\<open>int64\<close> and these divisors the quotient is below \<open>2 ^ 53\<close>, so the
  shift is never negative), rounded to the integer \<open>m\<close>, and the quotient is
  \<open>m / 2 ^ s\<close> with the sign of \<open>x\<close>. \<^verbatim>\<open>math.Ceil\<close> of a double is exact, and the
  result is far inside the \<^verbatim>\<open>int64\<close> range.
\<close>

function quotient_shift :: "nat \<Rightarrow> nat \<Rightarrow> nat \<Rightarrow> nat" where
  "quotient_shift a d s =
     (if a = 0 \<or> d * 2 ^ 52 \<le> a * 2 ^ s then s else quotient_shift a d (Suc s))"
  by pat_completeness auto
termination
proof (relation "measure (\<lambda>(a, d, s). d * 2 ^ 52 - a * 2 ^ s)")
  show "wf (measure (\<lambda>(a, d, s). d * 2 ^ 52 - a * 2 ^ s))" by simp
next
  fix a d s :: nat
  assume "\<not> (a = 0 \<or> d * 2 ^ 52 \<le> a * 2 ^ s)"
  then have a: "0 < a" and lt: "a * 2 ^ s < d * 2 ^ 52" by simp_all
  define x where "x = a * 2 ^ s"
  define y where "y = d * (2::nat) ^ 52"
  have "0 < x" using a by (simp add: x_def)
  moreover have "x < y" using lt by (simp add: x_def y_def)
  moreover have "a * 2 ^ Suc s = 2 * x" by (simp add: x_def)
  ultimately have "y - a * 2 ^ Suc s < y - x" by linarith
  then show "((a, d, Suc s), (a, d, s)) \<in> measure (\<lambda>(a, d, s). d * 2 ^ 52 - a * 2 ^ s)"
    by (simp add: x_def y_def del: power_Suc)
qed

definition ceil_div :: "int \<Rightarrow> int \<Rightarrow> int" where
  "ceil_div x d = - ((- x) div d)"

definition float64_div_ceil :: "int \<Rightarrow> nat \<Rightarrow> int" where
  "float64_div_ceil x d =
     (let a = nat \<bar>x\<bar>; s = quotient_shift a d 0; m = round_half_even (a * 2 ^ s) d
      in ceil_div (sgn x * int m) (2 ^ s))"

definition memoryQuantityToMb :: "Quantity \<Rightarrow> int" where
  "memoryQuantityToMb q = float64_div_ceil (float64 (Value q)) (1024 * 1024)"

definition cpuQuantityToMhz :: "Quantity \<Rightarrow> int" where
  "cpuQuantityToMhz q = float64_div_ceil (float64 (Value q)) (1000 * 1000)"

subsection \<open>Errors\<close>

text \<open>
  A Go \<^verbatim>\<open>error\<close> value. The four \<^verbatim>\<open>find\<close> errors are the ones the type switches of
  the code tell apart; \<open>OtherError\<close> is any other error of a collaborator. \<open>Wrap\<close> is
  \<^verbatim>\<open>errors.Wrap\<close>/\<^verbatim>\<open>errors.Wrapf\<close> (a new error value around the cause: a type switch
  on it does not see the cause), \<open>Errorf\<close> is \<^verbatim>\<open>fmt.Errorf\<close>/\<^verbatim>\<open>errors.Errorf\<close> with
  its format and arguments, \<open>StatusNotFound\<close> is \<^verbatim>\<open>k8serror.NewNotFound\<close> with the
  resource kind and name. \<open>Panic\<close> is a run-time panic (a nil dereference, a failed type
  assertion): it is not a returned error, so nothing wraps or translates it. A format is
  written as in the code, but for the single quotes two of them put around an argument.
\<close>

datatype error =
    NotFoundError
  | DefaultNotFoundError
  | MultipleFoundError
  | DefaultMultipleFoundError
  | OtherError string
  | Wrap error string "string list"
  | Errorf string "string list"
  | StatusNotFound string string
  | Panic string

fun Wrapf :: "error \<Rightarrow> string \<Rightarrow> string list \<Rightarrow> error" where
  "Wrapf (Panic p) msg args = Panic p"
| "Wrapf err msg args = Wrap err msg args"

subsection \<open>The data model\<close>

record VirtualMachineNetworkInterface =
  NetworkType :: string
  NetworkName :: string

record VirtualMachineMetadataSpec =
  Transport :: string

record VirtualMachineSpec =
  ImageName :: string
  PowerState :: string
  NetworkInterfaces :: "VirtualMachineNetworkInterface list"
  VmMetadata :: "VirtualMachineMetadataSpec option"

text \<open>
  Modelled from the spec: the fields of \<^verbatim>\<open>v1alpha1.VirtualMachineStatus\<close>, a type declared
  outside the files at hand. Section 6 of the specification lists "a status record with
  power state, unique backend identifier, internal reference string", section 4.3 adds
  the network addresses; \<open>Phase\<close> is the field the code names.
\<close>

record VirtualMachineStatus =
  Phase :: string
  StatusPowerState :: string
  UniqueId :: string
  InternalRef :: string
  Addresses :: "string list"

record VirtualMachine =
  Name :: string
  Namespace :: string
  Annotations :: "(string \<rightharpoonup> string) option"
  Spec :: VirtualMachineSpec
  Status :: VirtualMachineStatus

text \<open>
  Modelled from the spec: \<^verbatim>\<open>NamespacedName\<close> is a method of the API type. Section 4.4 has
  the translated error carry "the resource kind and identifier"; the identifier is
  written as \<^verbatim>\<open>GetVirtualMachineImage\<close> writes it, \<^verbatim>\<open>fmt.Sprintf("%v/%v", namespace, name)\<close>.
\<close>

definition NamespacedName :: "VirtualMachine \<Rightarrow> string" where
  "NamespacedName vm = Namespace vm @ ''/'' @ Name vm"

record VirtualMachineClassSpec =
  Cpus :: "64 word"
  Memory :: Quantity
  Requests_Cpu :: Quantity
  Requests_Memory :: Quantity
  Limits_Cpu :: Quantity
  Limits_Memory :: Quantity

text \<open>Virtual devices and device changes (\<^verbatim>\<open>vim25/types\<close>): the key is an \<^verbatim>\<open>int32\<close>.\<close>

record VirtualDevice =
  Key :: "32 word"
  Backing :: string
  DeviceInfo :: string

datatype VirtualDeviceConfigSpecOperation = OperationAdd | OperationRemove | OperationEdit

record VirtualDeviceConfigSpec =
  Device :: VirtualDevice
  Operation :: VirtualDeviceConfigSpecOperation
  Profile :: "string list"
  FileOperation :: string

record ResourceAllocationInfo =
  Reservation :: "int option"
  Limit :: "int option"

record VirtualMachineConfigSpec =
  ConfigName :: string
  NumCPUs :: "32 word"
  MemoryMB :: int
  CpuAllocation :: ResourceAllocationInfo
  MemoryAllocation :: ResourceAllocationInfo
  ExtraConfig :: "string \<rightharpoonup> string"
  Annotation :: string
  DeviceChange :: "VirtualDeviceConfigSpec list"
  Files :: "string option"

record VirtualMachineRelocateSpec =
  Pool :: string
  LocationProfile :: "string list"
  LocationDeviceChange :: "VirtualDeviceConfigSpec list"
  Folder :: string
  Host :: "string option"
  Datastore :: "string option"

record VirtualMachineCloneSpec =
  Config :: VirtualMachineConfigSpec
  PowerOn :: bool
  CloneMemory :: bool
  Location :: VirtualMachineRelocateSpec

record PlacementResult =
  PlacementHost :: "string option"
  PlacementDatastore :: "string option"

record DeploymentSpec =
  DeployName :: string
  AcceptAllEULA :: bool
  StorageProfileID :: string
  DefaultDatastoreID :: string
  ResourcePoolID :: string
  FolderID :: string

record LibraryItem =
  ItemID :: string
  ItemName :: string
  ItemType :: string

record VirtualMachineImage =
  ImageObjectName :: string
  ImageNamespace :: string
  ImageAnnotations :: "string \<rightharpoonup> string"
  ImageUuid :: string
  ImageInternalId :: string
  ImageType :: string
  ImageSourceType :: string

record IPAddressInfo =
  IP :: string
  SubnetMask :: string
  Gateway :: string

record VirtualNetworkInterface =
  MacAddress :: string
  IPAddresses :: "IPAddressInfo list"

record CustomizationAdapterMapping =
  AdapterMacAddress :: string
  AdapterIp :: string
  AdapterSubnetMask :: string
  AdapterGateway :: "string list"

record CustomizationSpec =
  HostName :: string
  HwClockUTC :: bool
  NicSettingMap :: "CustomizationAdapterMapping list"

text \<open>
  \<^verbatim>\<open>res.VirtualMachine\<close>, the remote VM handle: its name and the value of its managed
  object reference (\<^verbatim>\<open>ReferenceValue()\<close>).
\<close>

record ResVm =
  ResName :: string
  ReferenceValue :: string

datatype ManagedObject = ObjectVirtualMachine string | ObjectOther string

datatype NetworkProvider = NsxtNetworkProvider | DefaultNetworkProvider

text \<open>A managed object of the backend: its name and the value of its reference.\<close>

record ObjectRef =
  RefName :: string
  RefValue :: string

text \<open>
  The session: the references \<^verbatim>\<open>initSession\<close> resolved. Each is a pointer or an
  interface of the code, nil when the configuration names none; \<open>contentlib\<close> holds the
  library's ID, \<open>creds\<close> the user name and password.
\<close>

record Session =
  cluster :: "ObjectRef option"
  folder :: "ObjectRef option"
  resourcepool :: "ObjectRef option"
  datastore :: "ObjectRef option"
  network :: "ObjectRef option"
  contentlib :: "string option"
  creds :: "(string \<times> string) option"
  extraConfig :: "(string \<rightharpoonup> string) option"

subsection \<open>Calls and collaborators\<close>

text \<open>
  One constructor for each operation the two files call on a collaborator, with the
  arguments that identify the call, and one for the entry of each of the two session
  methods the provider chooses between on create. The trace lists the calls in the order
  they were made.
\<close>

datatype call =
    Call_GetSession string
  | Call_Session_CreateVirtualMachine string
  | Call_Session_CloneVirtualMachine string
  | Call_Finder_VirtualMachine string
  | Call_Finder_ObjectReference string string
  | Call_NewVMFromObject string
  | Call_CreateVnic NetworkProvider VirtualMachineNetworkInterface
  | Call_waitForVnetIFStatus string string string
  | Call_GetNetworkDevices ResVm
  | Call_EthernetCardBackingInfo ObjectRef
  | Call_GetVirtualDisks ResVm
  | Call_Create string VirtualMachineConfigSpec
  | Call_Clone ResVm VirtualMachineCloneSpec
  | Call_Reconfigure ResVm VirtualMachineConfigSpec
  | Call_SetPowerState ResVm string
  | Call_Customize ResVm CustomizationSpec
  | Call_GetStatus ResVm
  | Call_rest_Login
  | Call_rest_Logout
  | Call_FindLibraryItems string string
  | Call_GetLibraryItem string
  | Call_ParseAndRetrievePropsFromLibraryItem LibraryItem
  | Call_DeployLibraryItem string DeploymentSpec
  | Call_computeVMPlacement string VirtualMachineCloneSpec
  | Call_DeleteSequence_Execute string ResVm

type_synonym trace = "call list"

text \<open>
  The collaborators, and the constants declared outside the two files. A collaborator
  answers from its arguments and from the calls made so far, so that the same call may
  be answered differently later (a lookup after a delete, a status after a power
  operation). \<open>disks_ConfigSpec\<close> is the list method of the client library.
\<close>

record backend =
  NsxtNetworkType :: string
  VirtualMachinePoweredOn :: string
  VmOperatorVmProviderKey :: string
  VmOperatorKey :: string
  InternalVirtualMachine_Kind :: string
  sessions_GetSession :: "trace \<Rightarrow> string \<Rightarrow> error + Session"
  Finder_VirtualMachine :: "trace \<Rightarrow> string \<Rightarrow> error + string"
  Finder_ObjectReference :: "trace \<Rightarrow> string \<Rightarrow> string \<Rightarrow> error + ManagedObject"
  NewVMFromObject :: "trace \<Rightarrow> string \<Rightarrow> error + ResVm"
  vm_Create :: "trace \<Rightarrow> string \<Rightarrow> ObjectRef \<Rightarrow> ObjectRef \<Rightarrow> VirtualMachineConfigSpec \<Rightarrow> error + string"
  vm_Clone :: "trace \<Rightarrow> ResVm \<Rightarrow> ObjectRef option \<Rightarrow> VirtualMachineCloneSpec \<Rightarrow> error + ResVm"
  vm_Reconfigure :: "trace \<Rightarrow> ResVm \<Rightarrow> VirtualMachineConfigSpec \<Rightarrow> error option"
  vm_SetPowerState :: "trace \<Rightarrow> ResVm \<Rightarrow> string \<Rightarrow> error option"
  vm_Customize :: "trace \<Rightarrow> ResVm \<Rightarrow> CustomizationSpec \<Rightarrow> error option"
  vm_GetStatus :: "trace \<Rightarrow> ResVm \<Rightarrow> error + VirtualMachineStatus"
  vm_GetNetworkDevices :: "trace \<Rightarrow> ResVm \<Rightarrow> error + VirtualDevice list"
  vm_GetVirtualDisks :: "trace \<Rightarrow> ResVm \<Rightarrow> error + VirtualDevice list"
  disks_ConfigSpec :: "VirtualDevice list \<Rightarrow> VirtualDeviceConfigSpecOperation \<Rightarrow> error + VirtualDeviceConfigSpec list"
  EthernetCardBackingInfo :: "trace \<Rightarrow> ObjectRef \<Rightarrow> error + string"
  CreateVnic :: "trace \<Rightarrow> NetworkProvider \<Rightarrow> VirtualMachine \<Rightarrow> VirtualMachineNetworkInterface \<Rightarrow> error + VirtualDevice"
  waitForVnetIFStatus :: "trace \<Rightarrow> string \<Rightarrow> string \<Rightarrow> string \<Rightarrow> error + VirtualNetworkInterface"
  rest_Login :: "trace \<Rightarrow> string \<times> string \<Rightarrow> error option"
  rest_Logout :: "trace \<Rightarrow> error option"
  FindLibraryItems :: "trace \<Rightarrow> string \<Rightarrow> string \<Rightarrow> error + string list"
  GetLibraryItem :: "trace \<Rightarrow> string \<Rightarrow> error + LibraryItem option"
  ParseAndRetrievePropsFromLibraryItem :: "trace \<Rightarrow> LibraryItem \<Rightarrow> error + (string \<rightharpoonup> string)"
  DeployLibraryItem :: "trace \<Rightarrow> string \<Rightarrow> DeploymentSpec \<Rightarrow> error + string \<times> string"
  computeVMPlacement :: "trace \<Rightarrow> ObjectRef option \<Rightarrow> string \<Rightarrow> VirtualMachineCloneSpec \<Rightarrow> error + PlacementResult"
  DeleteSequence_Execute :: "trace \<Rightarrow> VirtualMachine \<Rightarrow> ResVm \<Rightarrow> error option"

definition invoke :: "call \<Rightarrow> (trace \<Rightarrow> 'a) \<Rightarrow> trace \<Rightarrow> 'a \<times> trace" where
  "invoke c f tr = (f tr, tr @ [c])"

text \<open>The calls made between two traces of one run, and the operation a call names.\<close>

definition calls_since :: "trace \<Rightarrow> trace \<Rightarrow> call list" where
  "calls_since tr tr' = drop (length tr) tr'"

fun call_name :: "call \<Rightarrow> string" where
  "call_name (Call_GetSession _) = ''GetSession''"
| "call_name (Call_Session_CreateVirtualMachine _) = ''Session.CreateVirtualMachine''"
| "call_name (Call_Session_CloneVirtualMachine _) = ''Session.CloneVirtualMachine''"
| "call_name (Call_Finder_VirtualMachine _) = ''Finder.VirtualMachine''"
| "call_name (Call_Finder_ObjectReference _ _) = ''Finder.ObjectReference''"
| "call_name (Call_NewVMFromObject _) = ''NewVMFromObject''"
| "call_name (Call_CreateVnic _ _) = ''CreateVnic''"
| "call_name (Call_waitForVnetIFStatus _ _ _) = ''waitForVnetIFStatus''"
| "call_name (Call_GetNetworkDevices _) = ''GetNetworkDevices''"
| "call_name (Call_EthernetCardBackingInfo _) = ''EthernetCardBackingInfo''"
| "call_name (Call_GetVirtualDisks _) = ''GetVirtualDisks''"
| "call_name (Call_Create _ _) = ''Create''"
| "call_name (Call_Clone _ _) = ''Clone''"
| "call_name (Call_Reconfigure _ _) = ''Reconfigure''"
| "call_name (Call_SetPowerState _ _) = ''SetPowerState''"
| "call_name (Call_Customize _ _) = ''Customize''"
| "call_name (Call_GetStatus _) = ''GetStatus''"
| "call_name Call_rest_Login = ''Login''"
| "call_name Call_rest_Logout = ''Logout''"
| "call_name (Call_FindLibraryItems _ _) = ''FindLibraryItems''"
| "call_name (Call_GetLibraryItem _) = ''GetLibraryItem''"
| "call_name (Call_ParseAndRetrievePropsFromLibraryItem _) = ''ParseAndRetrievePropsFromLibraryItem''"
| "call_name (Call_DeployLibraryItem _ _) = ''DeployLibraryItem''"
| "call_name (Call_computeVMPlacement _ _) = ''computeVMPlacement''"
| "call_name (Call_DeleteSequence_Execute _ _) = ''DeleteSequence.Execute''"

text \<open>
  \<open>emits S tr tr'\<close>: the trace \<open>tr'\<close> is \<open>tr\<close> followed by calls of the operations
  named in \<open>S\<close> only.
\<close>

definition emits :: "string set \<Rightarrow> trace \<Rightarrow> trace \<Rightarrow> bool" where
  "emits S tr tr' =
     (take (length tr) tr' = tr \<and> list_all (\<lambda>c. call_name c \<in> S) (calls_since tr tr'))"

subsection \<open>The session: lookup, device changes, configuration\<close>

definition lookupVm :: "backend \<Rightarrow> string \<Rightarrow> trace \<Rightarrow> (error + ResVm) \<times> trace" where
  "lookupVm B name tr =
     (case invoke (Call_Finder_VirtualMachine name) (\<lambda>h. Finder_VirtualMachine B h name) tr of
        (Inl err, tr1) \<Rightarrow> (Inl err, tr1)
      | (Inr objVm, tr1) \<Rightarrow>
          invoke (Call_NewVMFromObject objVm) (\<lambda>h. NewVMFromObject B h objVm) tr1)"

definition GetVirtualMachine :: "backend \<Rightarrow> string \<Rightarrow> trace \<Rightarrow> (error + ResVm) \<times> trace" where
  "GetVirtualMachine B name tr = lookupVm B name tr"

definition getNetworkProviderByType :: "backend \<Rightarrow> string \<Rightarrow> error + NetworkProvider" where
  "getNetworkProviderByType B networkType =
     (if networkType = NsxtNetworkType B then Inr NsxtNetworkProvider
      else if networkType = [] then Inr DefaultNetworkProvider
      else Inl (Errorf ''failed to create network provider for network type %s'' [networkType]))"

text \<open>
  Modelled from the spec: \<^verbatim>\<open>setVnicKey\<close> is defined with the network providers, outside
  the files at hand. Section 4.2: "each new device is assigned a unique negative
  temporary key"; the function stores the key it is given in the device.
\<close>

definition setVnicKey :: "VirtualDevice \<Rightarrow> 32 word \<Rightarrow> VirtualDevice" where
  "setVnicKey dev key = dev\<lparr>Key := key\<rparr>"

definition deviceConfigSpec :: "VirtualDevice \<Rightarrow> VirtualDeviceConfigSpecOperation \<Rightarrow> VirtualDeviceConfigSpec" where
  "deviceConfigSpec dev op = \<lparr>Device = dev, Operation = op, Profile = [], FileOperation = []\<rparr>"

text \<open>
  The loop of \<^verbatim>\<open>deviceSpecsFromVM\<close> over the interfaces that remain, with the loop's
  variables \<open>key\<close> and \<open>deviceSpecs\<close>; \<^verbatim>\<open>key--\<close> on an \<^verbatim>\<open>int32\<close> wraps around.
\<close>

fun deviceSpecsFromVM_loop ::
  "backend \<Rightarrow> VirtualMachine \<Rightarrow> VirtualMachineNetworkInterface list \<Rightarrow> 32 word \<Rightarrow>
   VirtualDeviceConfigSpec list \<Rightarrow> trace \<Rightarrow> (error + VirtualDeviceConfigSpec list) \<times> trace" where
  "deviceSpecsFromVM_loop B vm [] key deviceSpecs tr = (Inr deviceSpecs, tr)"
| "deviceSpecsFromVM_loop B vm (vif # vifs) key deviceSpecs tr =
     (case getNetworkProviderByType B (NetworkType vif) of
        Inl err \<Rightarrow> (Inl (Wrapf err ''failed to get network provider'' []), tr)
      | Inr np \<Rightarrow>
          (case invoke (Call_CreateVnic np vif) (\<lambda>h. CreateVnic B h np vm vif) tr of
             (Inl err, tr1) \<Rightarrow>
               (Inl (Wrapf err ''failed to create vnic %v'' [NetworkType vif, NetworkName vif]), tr1)
           | (Inr dev, tr1) \<Rightarrow>
               deviceSpecsFromVM_loop B vm vifs (key - 1)
                 (deviceSpecs @ [deviceConfigSpec (setVnicKey dev key) OperationAdd]) tr1))"

definition deviceSpecsFromVM ::
  "backend \<Rightarrow> VirtualMachine \<Rightarrow> trace \<Rightarrow> (error + VirtualDeviceConfigSpec list) \<times> trace" where
  "deviceSpecsFromVM B vm tr =
     deviceSpecsFromVM_loop B vm (NetworkInterfaces (Spec vm)) (- 100) [] tr"

text \<open>
  The loop of \<^verbatim>\<open>deviceChangeSpecs\<close> that updates the backing of the existing devices
  to the session's default network.
\<close>

fun deviceChangeSpecs_edit ::
  "backend \<Rightarrow> ObjectRef \<Rightarrow> VirtualDevice list \<Rightarrow> VirtualDeviceConfigSpec list \<Rightarrow> trace \<Rightarrow>
   (error + VirtualDeviceConfigSpec list) \<times> trace" where
  "deviceChangeSpecs_edit B nw [] deviceSpecs tr = (Inr deviceSpecs, tr)"
| "deviceChangeSpecs_edit B nw (dev # devs) deviceSpecs tr =
     (case invoke (Call_EthernetCardBackingInfo nw) (\<lambda>h. EthernetCardBackingInfo B h nw) tr of
        (Inl err, tr1) \<Rightarrow>
          (Inl (Wrapf err ''unable to create new ethernet card backing info for network %+v''
                  [RefValue nw]), tr1)
      | (Inr backingInfo, tr1) \<Rightarrow>
          deviceChangeSpecs_edit B nw devs
            (deviceSpecs @ [deviceConfigSpec (dev\<lparr>Backing := backingInfo\<rparr>) OperationEdit]) tr1)"

definition deviceChangeSpecs ::
  "backend \<Rightarrow> Session \<Rightarrow> VirtualMachine \<Rightarrow> ResVm \<Rightarrow> trace \<Rightarrow>
   (error + VirtualDeviceConfigSpec list) \<times> trace" where
  "deviceChangeSpecs B s vm resSrcVm tr =
     (case invoke (Call_GetNetworkDevices resSrcVm) (\<lambda>h. vm_GetNetworkDevices B h resSrcVm) tr of
        (Inl err, tr1) \<Rightarrow> (Inl err, tr1)
      | (Inr netDevices, tr1) \<Rightarrow>
          if length (NetworkInterfaces (Spec vm)) = 0 then
            (case network s of
               None \<Rightarrow> (Inr [], tr1)
             | Some nw \<Rightarrow> deviceChangeSpecs_edit B nw netDevices [] tr1)
          else
            (case deviceSpecsFromVM B vm tr1 of
               (Inl err, tr2) \<Rightarrow> (Inl err, tr2)
             | (Inr addDeviceSpecs, tr2) \<Rightarrow>
                 (Inr (map (\<lambda>dev. deviceConfigSpec dev OperationRemove) netDevices @ addDeviceSpecs),
                  tr2)))"

definition processStorageClass ::
  "backend \<Rightarrow> ResVm \<Rightarrow> string \<Rightarrow> trace \<Rightarrow>
   (error + VirtualDeviceConfigSpec list \<times> string list) \<times> trace" where
  "processStorageClass B resSrcVM profileID tr =
     (if length profileID = 0 then (Inr ([], []), tr)
      else
        (case invoke (Call_GetVirtualDisks resSrcVM) (\<lambda>h. vm_GetVirtualDisks B h resSrcVM) tr of
           (Inl err, tr1) \<Rightarrow> (Inl err, tr1)
         | (Inr disks, tr1) \<Rightarrow>
             (case disks_ConfigSpec B disks OperationEdit of
                Inl err \<Rightarrow> (Inl err, tr1)
              | Inr vdcs \<Rightarrow>
                  (Inr (map (\<lambda>cs. cs\<lparr>Profile := [profileID], FileOperation := []\<rparr>) vdcs,
                        [profileID]), tr1))))"

definition GetExtraConfig ::
  "(string \<rightharpoonup> string) \<Rightarrow> (string \<rightharpoonup> string) option \<Rightarrow> (string \<rightharpoonup> string)" where
  "GetExtraConfig vmSpecMeta globalMeta =
     (case globalMeta of None \<Rightarrow> vmSpecMeta | Some g \<Rightarrow> g ++ vmSpecMeta)"

definition allocation :: "(Quantity \<Rightarrow> int) \<Rightarrow> Quantity \<Rightarrow> Quantity \<Rightarrow> ResourceAllocationInfo" where
  "allocation conv request limit =
     \<lparr>Reservation = (if \<not> IsZero request then Some (conv request) else None),
      Limit = (if \<not> IsZero limit then Some (conv limit) else None)\<rparr>"

definition configSpecFromClassSpec ::
  "Session \<Rightarrow> string \<Rightarrow> VirtualMachineSpec \<Rightarrow> VirtualMachineClassSpec \<Rightarrow> (string \<rightharpoonup> string) \<Rightarrow>
   VirtualDeviceConfigSpec list \<Rightarrow> error + VirtualMachineConfigSpec" where
  "configSpecFromClassSpec s name vmSpec vmClassSpec metadata deviceSpecs =
     (let configSpec =
            \<lparr>ConfigName = name,
             NumCPUs = ucast (Cpus vmClassSpec),
             MemoryMB = memoryQuantityToMb (Memory vmClassSpec),
             CpuAllocation =
               allocation cpuQuantityToMhz (Requests_Cpu vmClassSpec) (Limits_Cpu vmClassSpec),
             MemoryAllocation =
               allocation memoryQuantityToMb (Requests_Memory vmClassSpec) (Limits_Memory vmClassSpec),
             ExtraConfig = Map.empty,
             Annotation = [],
             DeviceChange = [],
             Files = None\<rparr>;
          finish = (\<lambda>c. c\<lparr>Annotation := ''Virtual Machine managed by VM Operator'',
                            DeviceChange := deviceSpecs\<rparr>)
      in case VmMetadata vmSpec of
           None \<Rightarrow> Inr (finish configSpec)
         | Some md \<Rightarrow>
             if Transport md = ''ExtraConfig''
             then Inr (finish (configSpec\<lparr>ExtraConfig := GetExtraConfig metadata (extraConfig s)\<rparr>))
             else Inl (Errorf ''unsupported metadata transport %q'' [Transport md]))"

subsection \<open>The session: create, deploy and clone\<close>

definition createVm ::
  "backend \<Rightarrow> Session \<Rightarrow> string \<Rightarrow> VirtualMachineConfigSpec \<Rightarrow> trace \<Rightarrow> (error + ResVm) \<times> trace" where
  "createVm B s name configSpec tr =
     (case (datastore s, folder s, resourcepool s) of
        (Some ds, Some fl, Some rp) \<Rightarrow>
          (let configSpec' = configSpec\<lparr>Files := Some (''['' @ RefName ds @ '']'')\<rparr> in
           case invoke (Call_Create name configSpec') (\<lambda>h. vm_Create B h name fl rp configSpec') tr of
             (Inl err, tr1) \<Rightarrow> (Inl err, tr1)
           | (Inr ref, tr1) \<Rightarrow>
               (let resVm = \<lparr>ResName = name, ReferenceValue = ref\<rparr> in
                case invoke (Call_SetPowerState resVm (VirtualMachinePoweredOn B))
                       (\<lambda>h. vm_SetPowerState B h resVm (VirtualMachinePoweredOn B)) tr1 of
                  (Some err, tr2) \<Rightarrow> (Inl err, tr2)
                | (None, tr2) \<Rightarrow> (Inr resVm, tr2)))
      | _ \<Rightarrow> (Inl (Panic ''nil pointer dereference''), tr))"

definition Session_CreateVirtualMachine ::
  "backend \<Rightarrow> Session \<Rightarrow> VirtualMachine \<Rightarrow> VirtualMachineClassSpec \<Rightarrow> (string \<rightharpoonup> string) \<Rightarrow>
   trace \<Rightarrow> (error + ResVm) \<times> trace" where
  "Session_CreateVirtualMachine B s vm vmClass vmMetadata tr =
     (case deviceSpecsFromVM B vm (tr @ [Call_Session_CreateVirtualMachine (Name vm)]) of
        (Inl err, tr1) \<Rightarrow> (Inl err, tr1)
      | (Inr deviceSpecs, tr1) \<Rightarrow>
          (case configSpecFromClassSpec s (Name vm) (Spec vm) vmClass vmMetadata deviceSpecs of
             Inl err \<Rightarrow> (Inl err, tr1)
           | Inr configSpec \<Rightarrow>
               (case createVm B s (Name vm) configSpec tr1 of
                  (Inl err, tr2) \<Rightarrow> (Inl (Wrapf err ''failed to create new VM %q'' [Name vm]), tr2)
                | (Inr resVm, tr2) \<Rightarrow> (Inr resVm, tr2))))"

text \<open>
  \<^verbatim>\<open>WithRestClient\<close>: log in, run \<open>f\<close>, and log out on every way out of \<open>f\<close> (the
  deferred call; its own error is only logged).
\<close>

definition WithRestClient ::
  "backend \<Rightarrow> Session \<Rightarrow> (trace \<Rightarrow> (error + 'a) \<times> trace) \<Rightarrow> trace \<Rightarrow> (error + 'a) \<times> trace" where
  "WithRestClient B s f tr =
     (case creds s of
        None \<Rightarrow> (Inl (Panic ''nil pointer dereference''), tr)
      | Some userInfo \<Rightarrow>
          (case invoke Call_rest_Login (\<lambda>h. rest_Login B h userInfo) tr of
             (Some err, tr1) \<Rightarrow> (Inl err, tr1)
           | (None, tr1) \<Rightarrow>
               (case f tr1 of
                  (r, tr2) \<Rightarrow> (r, snd (invoke Call_rest_Logout (rest_Logout B) tr2)))))"

definition IsSupportedDeployType :: "string \<Rightarrow> bool" where
  "IsSupportedDeployType t = (t = ''ovf'')"

datatype ImageOptions = AnnotateVmImage | DoNotAnnotateVmImage

definition LibItemToVirtualMachineImage ::
  "backend \<Rightarrow> LibraryItem \<Rightarrow> string \<Rightarrow> ImageOptions \<Rightarrow> trace \<Rightarrow> (error + VirtualMachineImage) \<times> trace" where
  "LibItemToVirtualMachineImage B item namespace imgOptions tr =
     (case (if imgOptions = AnnotateVmImage
            then invoke (Call_ParseAndRetrievePropsFromLibraryItem item)
                   (\<lambda>h. ParseAndRetrievePropsFromLibraryItem B h item) tr
            else (Inr Map.empty, tr)) of
        (Inl err, tr1) \<Rightarrow> (Inl err, tr1)
      | (Inr ovfProperties, tr1) \<Rightarrow>
          (Inr \<lparr>ImageObjectName = ItemName item,
                ImageNamespace = namespace,
                ImageAnnotations = ovfProperties,
                ImageUuid = ItemID item,
                ImageInternalId = ItemName item,
                ImageType = ItemType item,
                ImageSourceType = ''Content Library''\<rparr>, tr1))"

definition GetVirtualMachineImageFromCL ::
  "backend \<Rightarrow> Session \<Rightarrow> string \<Rightarrow> string \<Rightarrow> trace \<Rightarrow> (error + VirtualMachineImage) \<times> trace" where
  "GetVirtualMachineImageFromCL B s name namespace tr =
     (case WithRestClient B s
             (\<lambda>t. case contentlib s of
                     None \<Rightarrow> (Inl (Panic ''nil pointer dereference''), t)
                   | Some libraryID \<Rightarrow>
                       (case invoke (Call_FindLibraryItems libraryID name)
                               (\<lambda>h. FindLibraryItems B h libraryID name) t of
                          (Inl err, t1) \<Rightarrow> (Inl err, t1)
                        | (Inr [], t1) \<Rightarrow> (Inr None, t1)
                        | (Inr (itemID # _), t1) \<Rightarrow>
                            invoke (Call_GetLibraryItem itemID) (\<lambda>h. GetLibraryItem B h itemID) t1))
             tr of
        (Inl err, tr1) \<Rightarrow> (Inl err, tr1)
      | (Inr None, tr1) \<Rightarrow> (Inl (Errorf ''item: %v is not found in CL'' [name]), tr1)
      | (Inr (Some item), tr1) \<Rightarrow>
          if \<not> IsSupportedDeployType (ItemType item)
          then (Inl (Errorf ''item: %v not a supported type'' [ItemName item]), tr1)
          else LibItemToVirtualMachineImage B item namespace AnnotateVmImage tr1)"

text \<open>
  \<^verbatim>\<open>deployOvf\<close> drops the error of \<^verbatim>\<open>NewVMFromObject\<close> and returns what that call
  returned as the VM: a nil handle when it failed.
\<close>

definition deployOvf ::
  "backend \<Rightarrow> Session \<Rightarrow> string \<Rightarrow> string \<Rightarrow> string \<Rightarrow> trace \<Rightarrow> (error + ResVm option) \<times> trace" where
  "deployOvf B s itemID vmName profileID tr =
     (case WithRestClient B s
             (\<lambda>t. case (if profileID = [] then map_option RefValue (datastore s) else Some [],
                        resourcepool s, folder s) of
                     (Some defaultDatastoreID, Some rp, Some fl) \<Rightarrow>
                       (let deploy = \<lparr>DeployName = vmName, AcceptAllEULA = True,
                                      StorageProfileID = profileID,
                                      DefaultDatastoreID = defaultDatastoreID,
                                      ResourcePoolID = RefValue rp, FolderID = RefValue fl\<rparr>
                        in invoke (Call_DeployLibraryItem itemID deploy)
                             (\<lambda>h. DeployLibraryItem B h itemID deploy) t)
                   | _ \<Rightarrow> (Inl (Panic ''nil pointer dereference''), t))
             tr of
        (Inl err, tr1) \<Rightarrow> (Inl err, tr1)
      | (Inr (deploymentType, deploymentValue), tr1) \<Rightarrow>
          (case invoke (Call_Finder_ObjectReference deploymentType deploymentValue)
                  (\<lambda>h. Finder_ObjectReference B h deploymentType deploymentValue) tr1 of
             (Inl err, tr2) \<Rightarrow> (Inl err, tr2)
           | (Inr (ObjectOther _), tr2) \<Rightarrow> (Inl (Panic ''interface conversion''), tr2)
           | (Inr (ObjectVirtualMachine objVm), tr2) \<Rightarrow>
               (case invoke (Call_NewVMFromObject objVm) (\<lambda>h. NewVMFromObject B h objVm) tr2 of
                  (Inl _, tr3) \<Rightarrow> (Inr None, tr3)
                | (Inr deployedVM, tr3) \<Rightarrow> (Inr (Some deployedVM), tr3))))"

definition getCloneSpec ::
  "backend \<Rightarrow> Session \<Rightarrow> string \<Rightarrow> ResVm \<Rightarrow> VirtualMachine \<Rightarrow> VirtualMachineClassSpec \<Rightarrow>
   (string \<rightharpoonup> string) \<Rightarrow> string \<Rightarrow> trace \<Rightarrow> (error + VirtualMachineCloneSpec) \<times> trace" where
  "getCloneSpec B s name resSrcVM vm vmClassSpec vmMetadata profileID tr =
     (case processStorageClass B resSrcVM profileID tr of
        (Inl err, tr1) \<Rightarrow> (Inl err, tr1)
      | (Inr (vdcs, vmProfile), tr1) \<Rightarrow>
          (case deviceChangeSpecs B s vm resSrcVM tr1 of
             (Inl err, tr2) \<Rightarrow> (Inl err, tr2)
           | (Inr deviceSpecs, tr2) \<Rightarrow>
               (case configSpecFromClassSpec s name (Spec vm) vmClassSpec vmMetadata [] of
                  Inl err \<Rightarrow> (Inl err, tr2)
                | Inr configSpec \<Rightarrow>
                    (case (resourcepool s, folder s) of
                       (Some rp, Some fl) \<Rightarrow>
                         (let cloneSpec =
                                \<lparr>Config = configSpec,
                                 PowerOn = (PowerState (Spec vm) = VirtualMachinePoweredOn B),
                                 CloneMemory = False,
                                 Location =
                                   \<lparr>Pool = RefValue rp, LocationProfile = vmProfile,
                                    LocationDeviceChange = deviceSpecs @ vdcs,
                                    Folder = RefValue fl, Host = None, Datastore = None\<rparr>\<rparr>
                          in case invoke (Call_computeVMPlacement (ReferenceValue resSrcVM) cloneSpec)
                                    (\<lambda>h. computeVMPlacement B h (cluster s) (ReferenceValue resSrcVM)
                                            cloneSpec) tr2 of
                               (Inl err, tr3) \<Rightarrow> (Inl err, tr3)
                             | (Inr rSpec, tr3) \<Rightarrow>
                                 (Inr (cloneSpec\<lparr>Location :=
                                         (Location cloneSpec)\<lparr>Host := PlacementHost rSpec,
                                                                Datastore := PlacementDatastore rSpec\<rparr>\<rparr>),
                                  tr3))
                     | _ \<Rightarrow> (Inl (Panic ''nil pointer dereference''), tr2)))))"

definition cloneVm ::
  "backend \<Rightarrow> Session \<Rightarrow> ResVm \<Rightarrow> VirtualMachineCloneSpec \<Rightarrow> trace \<Rightarrow> (error + ResVm) \<times> trace" where
  "cloneVm B s resSrcVm cloneSpec tr =
     invoke (Call_Clone resSrcVm cloneSpec) (\<lambda>h. vm_Clone B h resSrcVm (folder s) cloneSpec) tr"

definition deviceChangeOnly :: "VirtualDeviceConfigSpec list \<Rightarrow> VirtualMachineConfigSpec" where
  "deviceChangeOnly deviceSpecs =
     \<lparr>ConfigName = [], NumCPUs = 0, MemoryMB = 0,
      CpuAllocation = \<lparr>Reservation = None, Limit = None\<rparr>,
      MemoryAllocation = \<lparr>Reservation = None, Limit = None\<rparr>,
      ExtraConfig = Map.empty, Annotation = [], DeviceChange = deviceSpecs, Files = None\<rparr>"

definition Session_CloneVirtualMachine ::
  "backend \<Rightarrow> Session \<Rightarrow> VirtualMachine \<Rightarrow> VirtualMachineClassSpec \<Rightarrow> (string \<rightharpoonup> string) \<Rightarrow>
   string \<Rightarrow> trace \<Rightarrow> (error + ResVm) \<times> trace" where
  "Session_CloneVirtualMachine B s vm vmClass vmMetadata profileID tr =
     (let name = Name vm;
          tr0 = tr @ [Call_Session_CloneVirtualMachine name]
      in if contentlib s \<noteq> None then
           (case GetVirtualMachineImageFromCL B s (ImageName (Spec vm)) (Namespace vm) tr0 of
              (Inl err, tr1) \<Rightarrow> (Inl err, tr1)
            | (Inr vmImage, tr1) \<Rightarrow>
                (case deployOvf B s (ImageUuid vmImage) name profileID tr1 of
                   (Inl err, tr2) \<Rightarrow>
                     (Inl (Wrapf err ''failed to deploy new VM %q from %q''
                             [name, ImageName (Spec vm)]), tr2)
                 | (Inr None, tr2) \<Rightarrow> (Inl (Panic ''nil pointer dereference''), tr2)
                 | (Inr (Some deployedVm), tr2) \<Rightarrow>
                     (case deviceChangeSpecs B s vm deployedVm tr2 of
                        (Inl err, tr3) \<Rightarrow>
                          (Inl (Wrapf err ''failed to generate device change spec for VM %q''
                                  [name]), tr3)
                      | (Inr deviceSpecs, tr3) \<Rightarrow>
                          (case invoke (Call_Reconfigure deployedVm (deviceChangeOnly deviceSpecs))
                                  (\<lambda>h. vm_Reconfigure B h deployedVm (deviceChangeOnly deviceSpecs))
                                  tr3 of
                             (Some err, tr4) \<Rightarrow>
                               (Inl (Wrapf err ''failed to reconfigure VM %q'' [name]), tr4)
                           | (None, tr4) \<Rightarrow> (Inr deployedVm, tr4)))))
         else
           (case lookupVm B (ImageName (Spec vm)) tr0 of
              (Inl err, tr1) \<Rightarrow> (Inl err, tr1)
            | (Inr resSrcVm, tr1) \<Rightarrow>
                (case getCloneSpec B s name resSrcVm vm vmClass vmMetadata profileID tr1 of
                   (Inl err, tr2) \<Rightarrow>
                     (Inl (Wrapf err ''failed to create clone spec from %q'' [ResName resSrcVm]), tr2)
                 | (Inr cloneSpec, tr2) \<Rightarrow>
                     (case cloneVm B s resSrcVm cloneSpec tr2 of
                        (Inl err, tr3) \<Rightarrow>
                          (Inl (Wrapf err ''failed to clone new VM %q from %q''
                                  [name, ResName resSrcVm]), tr3)
                      | (Inr cloneResVm, tr3) \<Rightarrow> (Inr cloneResVm, tr3)))))"

subsection \<open>The session: guest customization\<close>

text \<open>The first loop of \<^verbatim>\<open>getCustomizationSpecs\<close>, with its variable \<open>vnifs\<close>.\<close>

fun getCustomizationSpecs_wait ::
  "backend \<Rightarrow> string \<Rightarrow> string \<Rightarrow> VirtualMachineNetworkInterface list \<Rightarrow>
   VirtualNetworkInterface list \<Rightarrow> trace \<Rightarrow> (error + VirtualNetworkInterface list) \<times> trace" where
  "getCustomizationSpecs_wait B namespace vmName [] vnifs tr = (Inr vnifs, tr)"
| "getCustomizationSpecs_wait B namespace vmName (nif # nifs) vnifs tr =
     (if NetworkType nif = NsxtNetworkType B then
        (case invoke (Call_waitForVnetIFStatus namespace (NetworkName nif) vmName)
                (\<lambda>h. waitForVnetIFStatus B h namespace (NetworkName nif) vmName) tr of
           (Inl err, tr1) \<Rightarrow> (Inl err, tr1)
         | (Inr vnetif, tr1) \<Rightarrow>
             getCustomizationSpecs_wait B namespace vmName nifs (vnifs @ [vnetif]) tr1)
      else getCustomizationSpecs_wait B namespace vmName nifs vnifs tr)"

text \<open>The second loop: an interface without exactly one address is skipped.\<close>

fun nicSettingMap :: "VirtualNetworkInterface list \<Rightarrow> CustomizationAdapterMapping list" where
  "nicSettingMap [] = []"
| "nicSettingMap (vnetif # vnifs) =
     (case IPAddresses vnetif of
        [a] \<Rightarrow>
          \<lparr>AdapterMacAddress = MacAddress vnetif, AdapterIp = IP a,
           AdapterSubnetMask = SubnetMask a, AdapterGateway = [Gateway a]\<rparr> # nicSettingMap vnifs
      | _ \<Rightarrow> nicSettingMap vnifs)"

definition getCustomizationSpecs ::
  "backend \<Rightarrow> string \<Rightarrow> string \<Rightarrow> VirtualMachineSpec \<Rightarrow> trace \<Rightarrow>
   (error + CustomizationSpec option) \<times> trace" where
  "getCustomizationSpecs B namespace vmName vmSpec tr =
     (case getCustomizationSpecs_wait B namespace vmName (NetworkInterfaces vmSpec) [] tr of
        (Inl err, tr1) \<Rightarrow> (Inl err, tr1)
      | (Inr vnifs, tr1) \<Rightarrow>
          if length vnifs = 0 then (Inr None, tr1)
          else (Inr (Some \<lparr>HostName = vmName, HwClockUTC = True,
                             NicSettingMap = nicSettingMap vnifs\<rparr>), tr1))"

subsection \<open>The provider facade\<close>

definition transformError :: "string \<Rightarrow> string \<Rightarrow> error \<Rightarrow> error" where
  "transformError resourceType resource err =
     (case err of
        NotFoundError \<Rightarrow> StatusNotFound resourceType resource
      | DefaultNotFoundError \<Rightarrow> StatusNotFound resourceType resource
      | MultipleFoundError \<Rightarrow> err
      | DefaultMultipleFoundError \<Rightarrow> err
      | _ \<Rightarrow> err)"

definition transformVmError :: "backend \<Rightarrow> string \<Rightarrow> error \<Rightarrow> error" where
  "transformVmError B resource err = transformError (InternalVirtualMachine_Kind B) resource err"

definition VsphereVmProviderName :: string where
  "VsphereVmProviderName = ''vsphere''"

definition VmOperatorMoRefKey :: "backend \<Rightarrow> string" where
  "VmOperatorMoRefKey B = VmOperatorKey B @ ''/moref''"

definition addProviderAnnotations :: "backend \<Rightarrow> VirtualMachine \<Rightarrow> ResVm \<Rightarrow> VirtualMachine" where
  "addProviderAnnotations B vm vmRes =
     (let annotations = (case Annotations vm of None \<Rightarrow> Map.empty | Some a \<Rightarrow> a)
      in vm\<lparr>Annotations :=
               Some (annotations(VmOperatorVmProviderKey B \<mapsto> VsphereVmProviderName,
                                 VmOperatorMoRefKey B \<mapsto> ReferenceValue vmRes))\<rparr>)"

text \<open>
  \<^verbatim>\<open>mergeVmStatus\<close> writes into the VM it is given; the model returns the VM as it is
  left. On an error the VM is as it was.
\<close>

definition mergeVmStatus ::
  "backend \<Rightarrow> VirtualMachine \<Rightarrow> ResVm \<Rightarrow> trace \<Rightarrow> (error + VirtualMachine) \<times> trace" where
  "mergeVmStatus B vm resVm tr =
     (case invoke (Call_GetStatus resVm) (\<lambda>h. vm_GetStatus B h resVm) tr of
        (Inl err, tr1) \<Rightarrow> (Inl (Wrapf err ''unable to get VirtualMachine status'' []), tr1)
      | (Inr vmStatus, tr1) \<Rightarrow>
          (Inr (vm\<lparr>Status := vmStatus\<lparr>Phase := Phase (Status vm)\<rparr>\<rparr>), tr1))"

definition CreateVirtualMachine ::
  "backend \<Rightarrow> VirtualMachine \<Rightarrow> VirtualMachineClassSpec \<Rightarrow> (string \<rightharpoonup> string) \<Rightarrow> string \<Rightarrow>
   trace \<Rightarrow> (error + VirtualMachine) \<times> trace" where
  "CreateVirtualMachine B vm vmClass vmMetadata profileID tr =
     (let vmName = NamespacedName vm in
      case invoke (Call_GetSession (Namespace vm)) (\<lambda>h. sessions_GetSession B h (Namespace vm)) tr of
        (Inl err, tr1) \<Rightarrow> (Inl err, tr1)
      | (Inr ses, tr1) \<Rightarrow>
          (case (if ImageName (Spec vm) = []
                 then Session_CreateVirtualMachine B ses vm vmClass vmMetadata tr1
                 else Session_CloneVirtualMachine B ses vm vmClass vmMetadata profileID tr1) of
             (Inl err, tr2) \<Rightarrow> (Inl (transformVmError B vmName err), tr2)
           | (Inr resVm, tr2) \<Rightarrow>
               (case getCustomizationSpecs B (Namespace vm) (Name vm) (Spec vm) tr2 of
                  (Inl err, tr3) \<Rightarrow> (Inl err, tr3)
                | (Inr nsxtCustomizeSpec, tr3) \<Rightarrow>
                    (case (case nsxtCustomizeSpec of
                             None \<Rightarrow> (None, tr3)
                           | Some cs \<Rightarrow>
                               invoke (Call_Customize resVm cs) (\<lambda>h. vm_Customize B h resVm cs) tr3) of
                       (Some err, tr4) \<Rightarrow> (Inl (transformVmError B vmName err), tr4)
                     | (None, tr4) \<Rightarrow>
                         (case mergeVmStatus B vm resVm tr4 of
                            (Inl err, tr5) \<Rightarrow> (Inl (transformVmError B vmName err), tr5)
                          | (Inr vm', tr5) \<Rightarrow> (Inr (addProviderAnnotations B vm' resVm), tr5))))))"

definition reconfigureVm ::
  "backend \<Rightarrow> ResVm \<Rightarrow> VirtualMachineConfigSpec \<Rightarrow> trace \<Rightarrow> error option \<times> trace" where
  "reconfigureVm B resSrcVm configSpec tr =
     invoke (Call_Reconfigure resSrcVm configSpec) (\<lambda>h. vm_Reconfigure B h resSrcVm configSpec) tr"

definition updatePowerState ::
  "backend \<Rightarrow> VirtualMachine \<Rightarrow> ResVm \<Rightarrow> trace \<Rightarrow> error option \<times> trace" where
  "updatePowerState B vm resVm tr =
     (let powerState = (if PowerState (Spec vm) \<noteq> [] then PowerState (Spec vm)
                        else VirtualMachinePoweredOn B)
      in case invoke (Call_SetPowerState resVm powerState)
                (\<lambda>h. vm_SetPowerState B h resVm powerState) tr of
           (Some err, tr1) \<Rightarrow> (Some (Wrapf err ''failed to set power state to %v'' [powerState]), tr1)
         | (None, tr1) \<Rightarrow> (None, tr1))"

definition updateVm ::
  "backend \<Rightarrow> VirtualMachine \<Rightarrow> VirtualMachineConfigSpec \<Rightarrow> ResVm \<Rightarrow> trace \<Rightarrow> error option \<times> trace" where
  "updateVm B vm configSpec resVm tr =
     (case reconfigureVm B resVm configSpec tr of
        (None, tr1) \<Rightarrow> updatePowerState B vm resVm tr1
      | (Some err, tr1) \<Rightarrow> (Some err, tr1))"

definition UpdateVirtualMachine ::
  "backend \<Rightarrow> VirtualMachine \<Rightarrow> VirtualMachineClassSpec \<Rightarrow> (string \<rightharpoonup> string) \<Rightarrow> trace \<Rightarrow>
   (error + VirtualMachine) \<times> trace" where
  "UpdateVirtualMachine B vm vmClass vmMetadata tr =
     (let vmName = NamespacedName vm in
      case invoke (Call_GetSession (Namespace vm)) (\<lambda>h. sessions_GetSession B h (Namespace vm)) tr of
        (Inl err, tr1) \<Rightarrow> (Inl err, tr1)
      | (Inr ses, tr1) \<Rightarrow>
          (case GetVirtualMachine B (Name vm) tr1 of
             (Inl err, tr2) \<Rightarrow> (Inl (transformVmError B vmName err), tr2)
           | (Inr resVm, tr2) \<Rightarrow>
               (case deviceChangeSpecs B ses vm resVm tr2 of
                  (Inl err, tr3) \<Rightarrow> (Inl (transformVmError B vmName err), tr3)
                | (Inr deviceSpecs, tr3) \<Rightarrow>
                    (case configSpecFromClassSpec ses (Name vm) (Spec vm) vmClass vmMetadata
                            deviceSpecs of
                       Inl err \<Rightarrow> (Inl (transformVmError B vmName err), tr3)
                     | Inr configSpec \<Rightarrow>
                         (case updateVm B vm configSpec resVm tr3 of
                            (Some err, tr4) \<Rightarrow> (Inl (transformVmError B vmName err), tr4)
                          | (None, tr4) \<Rightarrow>
                              (case mergeVmStatus B vm resVm tr4 of
                                 (Inl err, tr5) \<Rightarrow> (Inl (transformVmError B vmName err), tr5)
                               | (Inr vm', tr5) \<Rightarrow> (Inr vm', tr5)))))))"

definition DeleteVirtualMachine ::
  "backend \<Rightarrow> VirtualMachine \<Rightarrow> trace \<Rightarrow> error option \<times> trace" where
  "DeleteVirtualMachine B vmToDelete tr =
     (let vmName = NamespacedName vmToDelete in
      case invoke (Call_GetSession (Namespace vmToDelete))
             (\<lambda>h. sessions_GetSession B h (Namespace vmToDelete)) tr of
        (Inl err, tr1) \<Rightarrow> (Some err, tr1)
      | (Inr ses, tr1) \<Rightarrow>
          (case GetVirtualMachine B (Name vmToDelete) tr1 of
             (Inl err, tr2) \<Rightarrow> (Some (transformVmError B vmName err), tr2)
           | (Inr resVm, tr2) \<Rightarrow>
               (case invoke (Call_DeleteSequence_Execute (Name vmToDelete) resVm)
                       (\<lambda>h. DeleteSequence_Execute B h vmToDelete resVm) tr2 of
                  (Some err, tr3) \<Rightarrow> (Some err, tr3)
                | (None, tr3) \<Rightarrow> (None, tr3))))"

subsection \<open>The operations of the two create paths\<close>

text \<open>
  The operations only \<^verbatim>\<open>Session.CreateVirtualMachine\<close> calls, and the operations only
  \<^verbatim>\<open>Session.CloneVirtualMachine\<close> calls (\<^verbatim>\<open>CreateVnic\<close> is called on both paths).
\<close>

definition create_path_ops :: "string set" where
  "create_path_ops = {''Session.CreateVirtualMachine'', ''Create'', ''SetPowerState''}"

definition clone_path_ops :: "string set" where
  "clone_path_ops =
     {''Session.CloneVirtualMachine'', ''Login'', ''Logout'', ''FindLibraryItems'',
      ''GetLibraryItem'', ''ParseAndRetrievePropsFromLibraryItem'', ''DeployLibraryItem'',
      ''Finder.ObjectReference'', ''Finder.VirtualMachine'', ''NewVMFromObject'',
      ''GetNetworkDevices'', ''EthernetCardBackingInfo'', ''GetVirtualDisks'',
      ''computeVMPlacement'', ''Clone'', ''Reconfigure''}"

subsection \<open>A backend, a session and a VM for the examples\<close>

text \<open>
  A backend on which every operation succeeds, a session without default network and
  without content library, and a VM without image, interfaces and metadata. The examples
  below change one field at a time.
\<close>

definition session0 :: Session where
  "session0 =
     \<lparr>cluster = Some \<lparr>RefName = ''cluster-a'', RefValue = ''domain-c8''\<rparr>,
      folder = Some \<lparr>RefName = ''vms'', RefValue = ''group-v4''\<rparr>,
      resourcepool = Some \<lparr>RefName = ''pool-a'', RefValue = ''resgroup-9''\<rparr>,
      datastore = Some \<lparr>RefName = ''datastore1'', RefValue = ''datastore-11''\<rparr>,
      network = None,
      contentlib = None,
      creds = Some (''administrator'', ''secret''),
      extraConfig = None\<rparr>"

definition status0 :: VirtualMachineStatus where
  "status0 = \<lparr>Phase = ''Unknown'', StatusPowerState = ''poweredOn'', UniqueId = ''4211-aa'',
              InternalRef = ''vm-42'', Addresses = [''10.0.0.7'']\<rparr>"

definition nic :: "32 word \<Rightarrow> VirtualDevice" where
  "nic k = \<lparr>Key = k, Backing = ''VM Network'', DeviceInfo = ''vmxnet3''\<rparr>"

definition backend0 :: backend where
  "backend0 =
     \<lparr>NsxtNetworkType = ''nsx-t'',
      VirtualMachinePoweredOn = ''poweredOn'',
      VmOperatorVmProviderKey = ''vmoperator.vmware.com/vmprovider'',
      VmOperatorKey = ''vmoperator.vmware.com'',
      InternalVirtualMachine_Kind = ''VirtualMachine'',
      sessions_GetSession = (\<lambda>h ns. Inr session0),
      Finder_VirtualMachine = (\<lambda>h name. Inr ''vm-42''),
      Finder_ObjectReference = (\<lambda>h t v. Inr (ObjectVirtualMachine v)),
      NewVMFromObject = (\<lambda>h obj. Inr \<lparr>ResName = ''web'', ReferenceValue = obj\<rparr>),
      vm_Create = (\<lambda>h name fl rp cs. Inr ''vm-43''),
      vm_Clone = (\<lambda>h src fl cs. Inr \<lparr>ResName = ConfigName (Config cs), ReferenceValue = ''vm-44''\<rparr>),
      vm_Reconfigure = (\<lambda>h vm cs. None),
      vm_SetPowerState = (\<lambda>h vm st. None),
      vm_Customize = (\<lambda>h vm cs. None),
      vm_GetStatus = (\<lambda>h vm. Inr status0),
      vm_GetNetworkDevices = (\<lambda>h vm. Inr [nic 4000, nic 4001]),
      vm_GetVirtualDisks = (\<lambda>h vm. Inr []),
      disks_ConfigSpec = (\<lambda>disks op. Inr (map (\<lambda>d. deviceConfigSpec d op) disks)),
      EthernetCardBackingInfo = (\<lambda>h nw. Inr (RefName nw)),
      CreateVnic = (\<lambda>h np vm vif. Inr \<lparr>Key = 0, Backing = NetworkName vif, DeviceInfo = ''vmxnet3''\<rparr>),
      waitForVnetIFStatus = (\<lambda>h ns nw vm. Inr \<lparr>MacAddress = ''00:50:56:00:00:01'', IPAddresses = []\<rparr>),
      rest_Login = (\<lambda>h userInfo. None),
      rest_Logout = (\<lambda>h. None),
      FindLibraryItems = (\<lambda>h lib name. Inr [''item-1'']),
      GetLibraryItem = (\<lambda>h itemID. Inr (Some \<lparr>ItemID = itemID, ItemName = ''photon'', ItemType = ''ovf''\<rparr>)),
      ParseAndRetrievePropsFromLibraryItem = (\<lambda>h item. Inr Map.empty),
      DeployLibraryItem = (\<lambda>h itemID deploy. Inr (''VirtualMachine'', ''vm-45'')),
      computeVMPlacement = (\<lambda>h cl src cs. Inr \<lparr>PlacementHost = Some ''host-1'', PlacementDatastore = Some ''datastore-11''\<rparr>),
      DeleteSequence_Execute = (\<lambda>h vm resVm. None)\<rparr>"

definition vm0 :: VirtualMachine where
  "vm0 =
     \<lparr>Name = ''web'', Namespace = ''ns1'', Annotations = None,
      Spec = \<lparr>ImageName = [], PowerState = [], NetworkInterfaces = [], VmMetadata = None\<rparr>,
      Status = \<lparr>Phase = ''Creating'', StatusPowerState = [], UniqueId = [], InternalRef = [],
                Addresses = []\<rparr>\<rparr>"

definition quantity :: "int \<Rightarrow> Quantity" where
  "quantity v = \<lparr>Value = v, IsZero = (v = 0)\<rparr>"

definition class0 :: VirtualMachineClassSpec where
  "class0 =
     \<lparr>Cpus = 2, Memory = quantity 1500000000,
      Requests_Cpu = quantity 0, Requests_Memory = quantity 0,
      Limits_Cpu = quantity 0, Limits_Memory = quantity 0\<rparr>"

definition resVm0 :: ResVm where
  "resVm0 = \<lparr>ResName = ''web'', ReferenceValue = ''vm-42''\<rparr>"

definition vif0 :: VirtualMachineNetworkInterface where
  "vif0 = \<lparr>NetworkType = [], NetworkName = ''VM Network''\<rparr>"

definition bogus_vif :: VirtualMachineNetworkInterface where
  "bogus_vif = \<lparr>NetworkType = ''bogus'', NetworkName = ''VM Network''\<rparr>"

definition with_interfaces :: "VirtualMachineNetworkInterface list \<Rightarrow> VirtualMachine \<Rightarrow> VirtualMachine" where
  "with_interfaces vifs vm = vm\<lparr>Spec := (Spec vm)\<lparr>NetworkInterfaces := vifs\<rparr>\<rparr>"

definition with_image :: "string \<Rightarrow> VirtualMachine \<Rightarrow> VirtualMachine" where
  "with_image img vm = vm\<lparr>Spec := (Spec vm)\<lparr>ImageName := img\<rparr>\<rparr>"

definition with_transport :: "string \<Rightarrow> VirtualMachine \<Rightarrow> VirtualMachine" where
  "with_transport t vm = vm\<lparr>Spec := (Spec vm)\<lparr>VmMetadata := Some \<lparr>Transport = t\<rparr>\<rparr>\<rparr>"

subsection \<open>Calls of the operations named in a set\<close>

abbreviation only :: "string set \<Rightarrow> call list \<Rightarrow> bool" where
  "only S ext \<equiv> list_all (\<lambda>c. call_name c \<in> S) ext"

section \<open>Which calls each function makes\<close>

lemma invoke_eq: "invoke c f tr = (r, tr') \<longleftrightarrow> r = f tr \<and> tr' = tr @ [c]"
  by (auto simp: invoke_def)

lemma emits_iff: "emits S tr tr' \<longleftrightarrow> (\<exists>ext. tr' = tr @ ext \<and> only S ext)"
  unfolding emits_def calls_since_def
  by (metis append_eq_conv_conj append_take_drop_id)

lemma lookupVm_calls:
  "lookupVm B name tr = (r, tr') \<Longrightarrow>
     \<exists>ext. tr' = tr @ ext \<and> only {''Finder.VirtualMachine'', ''NewVMFromObject''} ext"
  by (auto simp: lookupVm_def invoke_eq split: prod.splits sum.splits)

lemma deviceSpecsFromVM_loop_calls:
  "deviceSpecsFromVM_loop B vm vifs key acc tr = (r, tr') \<Longrightarrow>
     \<exists>ext. tr' = tr @ ext \<and> only {''CreateVnic''} ext"
proof (induction vifs arbitrary: key acc tr)
  case Nil
  then show ?case by simp
next
  case (Cons vif vifs)
  then show ?case
    by (fastforce simp: invoke_eq split: sum.splits prod.splits)
qed

lemma deviceSpecsFromVM_calls:
  "deviceSpecsFromVM B vm tr = (r, tr') \<Longrightarrow> \<exists>ext. tr' = tr @ ext \<and> only {''CreateVnic''} ext"
  unfolding deviceSpecsFromVM_def by (rule deviceSpecsFromVM_loop_calls)

lemma deviceChangeSpecs_edit_calls:
  "deviceChangeSpecs_edit B nw devs acc tr = (r, tr') \<Longrightarrow>
     \<exists>ext. tr' = tr @ ext \<and> only {''EthernetCardBackingInfo''} ext"
proof (induction devs arbitrary: acc tr)
  case Nil
  then show ?case by simp
next
  case (Cons dev devs)
  then show ?case
    by (fastforce simp: invoke_eq split: sum.splits prod.splits)
qed

lemma deviceChangeSpecs_calls:
  "deviceChangeSpecs B s vm resSrcVm tr = (r, tr') \<Longrightarrow>
     \<exists>ext. tr' = tr @ ext \<and>
       only {''GetNetworkDevices'', ''EthernetCardBackingInfo'', ''CreateVnic''} ext"
  by (auto simp: deviceChangeSpecs_def invoke_eq list_all_iff
           split: prod.splits sum.splits option.splits if_splits
           dest!: deviceSpecsFromVM_calls deviceChangeSpecs_edit_calls)

lemma processStorageClass_calls:
  "processStorageClass B resSrcVM profileID tr = (r, tr') \<Longrightarrow>
     \<exists>ext. tr' = tr @ ext \<and> only {''GetVirtualDisks''} ext"
  by (auto simp: processStorageClass_def invoke_eq split: prod.splits sum.splits if_splits)

lemma createVm_calls:
  "createVm B s name configSpec tr = (r, tr') \<Longrightarrow>
     \<exists>ext. tr' = tr @ ext \<and> only {''Create'', ''SetPowerState''} ext"
  by (auto simp: createVm_def invoke_eq Let_def split: prod.splits sum.splits option.splits)

lemma Session_CreateVirtualMachine_calls:
  "Session_CreateVirtualMachine B s vm vmClass vmMetadata tr = (r, tr') \<Longrightarrow>
     \<exists>ext. tr' = tr @ Call_Session_CreateVirtualMachine (Name vm) # ext \<and>
       only {''CreateVnic'', ''Create'', ''SetPowerState''} ext"
  by (auto simp: Session_CreateVirtualMachine_def list_all_iff
           split: prod.splits sum.splits
           dest!: deviceSpecsFromVM_calls createVm_calls)

lemma WithRestClient_calls:
  assumes f: "\<And>t r t'. f t = (r, t') \<Longrightarrow> \<exists>ext. t' = t @ ext \<and> only S ext"
      and w: "WithRestClient B s f tr = (r, tr')"
  shows "\<exists>ext. tr' = tr @ ext \<and> only (insert ''Login'' (insert ''Logout'' S)) ext"
  using w
  by (auto simp: WithRestClient_def invoke_eq invoke_def list_all_iff
           split: prod.splits sum.splits option.splits dest!: f)

lemma LibItemToVirtualMachineImage_calls:
  "LibItemToVirtualMachineImage B item ns opt tr = (r, tr') \<Longrightarrow>
     \<exists>ext. tr' = tr @ ext \<and> only {''ParseAndRetrievePropsFromLibraryItem''} ext"
  by (auto simp: LibItemToVirtualMachineImage_def invoke_eq
           split: prod.splits sum.splits if_splits)

lemma GetVirtualMachineImageFromCL_calls:
  "GetVirtualMachineImageFromCL B s name ns tr = (r, tr') \<Longrightarrow>
     \<exists>ext. tr' = tr @ ext \<and>
       only {''Login'', ''Logout'', ''FindLibraryItems'', ''GetLibraryItem'',
             ''ParseAndRetrievePropsFromLibraryItem''} ext"
  unfolding GetVirtualMachineImageFromCL_def
  apply (simp split: prod.splits sum.splits option.splits if_splits)
  apply (auto dest!: LibItemToVirtualMachineImage_calls 
       WithRestClient_calls [where S = "{''FindLibraryItems'', ''GetLibraryItem''}", rotated] 
      simp: list_all_iff invoke_eq split: option.splits sum.splits list.splits prod.splits)
  done

lemma deployOvf_calls:
  "deployOvf B s itemID vmName profileID tr = (r, tr') \<Longrightarrow>
     \<exists>ext. tr' = tr @ ext \<and>
       only {''Login'', ''Logout'', ''DeployLibraryItem'', ''Finder.ObjectReference'',
             ''NewVMFromObject''} ext"
  unfolding deployOvf_def
  apply (simp split: prod.splits sum.splits option.splits if_splits)
  apply (auto dest!: WithRestClient_calls [where S = "{''DeployLibraryItem''}", rotated]
      simp: list_all_iff invoke_eq Let_def
      split: option.splits sum.splits list.splits prod.splits ManagedObject.splits if_splits)
  done

lemma getCloneSpec_calls:
  "getCloneSpec B s name resSrcVM vm vmClassSpec vmMetadata profileID tr = (r, tr') \<Longrightarrow>
     \<exists>ext. tr' = tr @ ext \<and>
       only {''GetVirtualDisks'', ''GetNetworkDevices'', ''EthernetCardBackingInfo'',
             ''CreateVnic'', ''computeVMPlacement''} ext"
  by (auto simp: getCloneSpec_def invoke_eq list_all_iff Let_def
           split: prod.splits sum.splits option.splits
           dest!: processStorageClass_calls deviceChangeSpecs_calls)

lemma cloneVm_calls:
  "cloneVm B s resSrcVm cloneSpec tr = (r, tr') \<Longrightarrow> \<exists>ext. tr' = tr @ ext \<and> only {''Clone''} ext"
  by (auto simp: cloneVm_def invoke_eq)

lemma Session_CloneVirtualMachine_calls:
  "Session_CloneVirtualMachine B s vm vmClass vmMetadata profileID tr = (r, tr') \<Longrightarrow>
     \<exists>ext. tr' = tr @ Call_Session_CloneVirtualMachine (Name vm) # ext \<and>
       only {''Login'', ''Logout'', ''FindLibraryItems'', ''GetLibraryItem'',
             ''ParseAndRetrievePropsFromLibraryItem'', ''DeployLibraryItem'',
             ''Finder.ObjectReference'', ''Finder.VirtualMachine'', ''NewVMFromObject'',
             ''GetNetworkDevices'', ''EthernetCardBackingInfo'', ''CreateVnic'',
             ''GetVirtualDisks'', ''computeVMPlacement'', ''Clone'', ''Reconfigure''} ext"
  by (auto simp: Session_CloneVirtualMachine_def invoke_eq list_all_iff Let_def
           split: prod.splits sum.splits option.splits if_splits
           dest!: GetVirtualMachineImageFromCL_calls deployOvf_calls deviceChangeSpecs_calls
                  lookupVm_calls getCloneSpec_calls cloneVm_calls)

lemma getCustomizationSpecs_wait_calls:
  "getCustomizationSpecs_wait B ns vmName nifs vnifs tr = (r, tr') \<Longrightarrow>
     \<exists>ext. tr' = tr @ ext \<and> only {''waitForVnetIFStatus''} ext"
proof (induction nifs arbitrary: vnifs tr)
  case Nil
  then show ?case by simp
next
  case (Cons nif nifs)
  then show ?case
    by (fastforce simp: invoke_eq split: sum.splits prod.splits if_splits)
qed

lemma getCustomizationSpecs_calls:
  "getCustomizationSpecs B ns vmName vmSpec tr = (r, tr') \<Longrightarrow>
     \<exists>ext. tr' = tr @ ext \<and> only {''waitForVnetIFStatus''} ext"
  by (auto simp: getCustomizationSpecs_def split: prod.splits sum.splits if_splits
           dest!: getCustomizationSpecs_wait_calls)

lemma mergeVmStatus_calls:
  "mergeVmStatus B vm resVm tr = (r, tr') \<Longrightarrow> tr' = tr @ [Call_GetStatus resVm]"
  by (auto simp: mergeVmStatus_def invoke_eq split: prod.splits sum.splits)

lemmas session_defs =
  lookupVm_def GetVirtualMachine_def getNetworkProviderByType_def setVnicKey_def
  deviceConfigSpec_def deviceSpecsFromVM_def deviceChangeSpecs_def processStorageClass_def
  GetExtraConfig_def allocation_def configSpecFromClassSpec_def createVm_def
  Session_CreateVirtualMachine_def WithRestClient_def IsSupportedDeployType_def
  LibItemToVirtualMachineImage_def GetVirtualMachineImageFromCL_def deployOvf_def
  getCloneSpec_def cloneVm_def deviceChangeOnly_def Session_CloneVirtualMachine_def
  getCustomizationSpecs_def invoke_def Let_def

lemmas provider_defs =
  transformError_def transformVmError_def VsphereVmProviderName_def VmOperatorMoRefKey_def
  addProviderAnnotations_def mergeVmStatus_def CreateVirtualMachine_def reconfigureVm_def
  updatePowerState_def updateVm_def UpdateVirtualMachine_def DeleteVirtualMachine_def
  NamespacedName_def

lemmas example_defs =
  session0_def status0_def nic_def backend0_def vm0_def quantity_def class0_def resVm0_def
  vif0_def bogus_vif_def with_interfaces_def with_image_def with_transport_def

section \<open>Quantities\<close>

declare ulp_shift.simps [simp del]
declare quotient_shift.simps [simp del]

lemma ulp_shift_small: "a < 9007199254740992 \<Longrightarrow> ulp_shift a = 0"
  by (simp add: ulp_shift.simps)

lemma ulp_shift_pow53: "ulp_shift 9007199254740992 = 1"
  by (simp add: ulp_shift.simps)

lemma round_half_even_exact: "0 < d \<Longrightarrow> round_half_even (k * d) d = k"
  by (simp add: round_half_even_def)

lemma float64_exact:
  assumes h: "\<bar>v\<bar> \<le> 2 ^ 53"
  shows "float64 v = v"
proof (cases "\<bar>v\<bar> = 9007199254740992")
  case True
  then have a: "nat \<bar>v\<bar> = 9007199254740992" by simp
  have r: "round_half_even 9007199254740992 2 = 4503599627370496"
    by (simp add: round_half_even_def)
  have "sgn v * \<bar>v\<bar> = v" by (simp add: mult_sgn_abs)
  then show ?thesis using True
    by (simp add: float64_def a ulp_shift_pow53 r Let_def)
next
  case False
  from h have "\<bar>v\<bar> \<le> 9007199254740992" by simp
  with False have "nat \<bar>v\<bar> < 9007199254740992" by linarith
  then have "ulp_shift (nat \<bar>v\<bar>) = 0" by (rule ulp_shift_small)
  then show ?thesis
    using round_half_even_exact [of 1 "nat \<bar>v\<bar>"]
    by (simp add: float64_def Let_def mult_sgn_abs)
qed

lemma quotient_shift_ge:
  "0 < a \<Longrightarrow> d * 2 ^ 52 \<le> a * 2 ^ quotient_shift a d s"
proof (induction a d s rule: quotient_shift.induct)
  case (1 a d s)
  show ?case
  proof (cases "d * 2 ^ 52 \<le> a * 2 ^ s")
    case True
    then show ?thesis by (subst quotient_shift.simps) simp
  next
    case False
    with "1.prems" have "\<not> (a = 0 \<or> d * 2 ^ 52 \<le> a * 2 ^ s)" by simp
    from "1.IH" [OF this "1.prems"] this show ?thesis
      by (subst quotient_shift.simps) simp
  qed
qed

lemma ceil_div_ceiling: "ceil_div x d = \<lceil>real_of_int x / real_of_int d\<rceil>"
proof -
  have "- (real_of_int x / real_of_int d) = real_of_int (- x) / real_of_int d" by simp
  then show ?thesis
    unfolding ceil_div_def ceiling_def by (simp only: floor_divide_of_int_eq)
qed

lemma float64_div_ceil_pow20:
  assumes h: "\<bar>x\<bar> \<le> 2 ^ 53"
  shows "float64_div_ceil x (1024 * 1024) = \<lceil>real_of_int x / 2 ^ 20\<rceil>"
proof (cases "x = 0")
  case True
  then show ?thesis
    by (simp add: float64_div_ceil_def Let_def round_half_even_def ceil_div_def)
next
  case False
  define a where "a = nat \<bar>x\<bar>"
  define s where "s = quotient_shift a 1048576 0"
  have a0: "0 < a" using False by (simp add: a_def)
  have a53: "a \<le> 2 ^ 53" using h by (simp add: a_def)
  have ge: "(2::nat) ^ 72 \<le> a * 2 ^ s"
    using quotient_shift_ge [OF a0, of 1048576 0] by (simp add: s_def)
  have s19: "19 \<le> s"
  proof (rule ccontr)
    assume "\<not> 19 \<le> s"
    then have "s \<le> 18" by simp
    then have "(2::nat) ^ s \<le> 2 ^ 18" by (rule power_increasing) simp
    then have "a * 2 ^ s \<le> 2 ^ 53 * 2 ^ 18" using a53 by (rule mult_le_mono [rotated])
    with ge show False by simp
  qed
  have dvd: "\<exists>k. a * 2 ^ s = k * 1048576"
  proof (cases "s = 19")
    case True
    with ge have "(2::nat) ^ 72 \<le> a * 2 ^ 19" by simp
    then have "2 ^ 53 \<le> a" by simp
    with a53 have "a = 2 ^ 53" by simp
    then have "a * 2 ^ s = 2 ^ 52 * 1048576" using True by simp
    then show ?thesis by blast
  next
    case False
    with s19 have "20 \<le> s" by simp
    then obtain t where "s = 20 + t" using le_Suc_ex by blast
    then have "a * 2 ^ s = (a * 2 ^ t) * 1048576" by (simp add: power_add)
    then show ?thesis by blast
  qed
  then obtain k where k: "a * 2 ^ s = k * 1048576" by blast
  have m: "round_half_even (a * 2 ^ s) 1048576 = k"
    unfolding k by (rule round_half_even_exact) simp
  have "real k * 1048576 = real a * 2 ^ s"
    using k by (metis of_nat_mult of_nat_numeral of_nat_power)
  then have q: "real k / 2 ^ s = real a / 1048576"
    by (simp add: field_simps)
  have "real_of_int (sgn x * int k) / real_of_int (2 ^ s) = real_of_int (sgn x) * (real k / 2 ^ s)"
    by simp
  also have "\<dots> = real_of_int (sgn x) * (real a / 1048576)" by (simp only: q)
  also have "\<dots> = real_of_int (sgn x * \<bar>x\<bar>) / 1048576" by (simp add: a_def)
  also have "\<dots> = real_of_int x / 2 ^ 20" by (simp add: mult_sgn_abs)
  finally have r: "real_of_int (sgn x * int k) / real_of_int (2 ^ s) = real_of_int x / 2 ^ 20" .
  have "float64_div_ceil x (1024 * 1024) = ceil_div (sgn x * int k) (2 ^ s)"
    using m by (simp add: float64_div_ceil_def Let_def a_def [symmetric] s_def [symmetric])
  also have "\<dots> = \<lceil>real_of_int (sgn x * int k) / real_of_int (2 ^ s)\<rceil>"
    by (rule ceil_div_ceiling)
  finally show ?thesis by (simp only: r)
qed

text \<open>
  Up to \<open>2 ^ 53\<close> bytes in magnitude the conversion to \<^verbatim>\<open>float64\<close> and the division by
  \<open>2 ^ 20\<close> are exact, and \<^verbatim>\<open>memoryQuantityToMb\<close> is the ceiling of the value divided
  by \<open>2 ^ 20\<close>: 1,500,000,000 bytes give 1,431 MB.
\<close>

lemma memoryQuantityToMb_ceiling:
  "\<bar>Value q\<bar> \<le> 2 ^ 53 \<Longrightarrow> memoryQuantityToMb q = \<lceil>real_of_int (Value q) / 2 ^ 20\<rceil>"
  using float64_div_ceil_pow20 [of "Value q"]
  by (simp add: memoryQuantityToMb_def float64_exact)

lemma memoryQuantityToMb_ceiling_example:
  "\<bar>Value (quantity 1500000000)\<bar> \<le> 2 ^ 53 \<and> memoryQuantityToMb (quantity 1500000000) = 1431"
proof -
  have h: "\<bar>Value (quantity 1500000000)\<bar> \<le> 2 ^ 53" by (simp add: quantity_def)
  have "\<lceil>real_of_int (Value (quantity 1500000000)) / 2 ^ 20\<rceil> = 1431"
    by (simp add: quantity_def ceiling_divide_eq_div_numeral)
  with memoryQuantityToMb_ceiling [OF h] h show ?thesis by simp
qed

lemma quotient_shift_above: "quotient_shift 9007199254740992 1048576 0 = 19"
  by (simp add: quotient_shift.simps)

lemma ulp_shift_above: "ulp_shift 9007199254740993 = 1"
  by (simp add: ulp_shift.simps)

lemma float64_above: "float64 9007199254740993 = 9007199254740992"
  by (simp add: float64_def ulp_shift_above round_half_even_def Let_def)

lemma float64_div_ceil_above: "float64_div_ceil 9007199254740992 (1024 * 1024) = 8589934592"
  by (simp add: float64_div_ceil_def quotient_shift_above round_half_even_def ceil_div_def Let_def)

text \<open>
  C3. \<^verbatim>\<open>memoryQuantityToMb\<close> is to be the ceiling of the byte value divided by \<open>2 ^ 20\<close>,
  for every quantity. The code takes the ceiling of a \<^verbatim>\<open>float64\<close> quotient, and the
  conversion of the value to \<^verbatim>\<open>float64\<close> keeps 53 bits: a quantity of \<open>2 ^ 53 + 1\<close>
  bytes is converted to \<open>2 ^ 53\<close> and the function returns \<open>2 ^ 33\<close> MB, one less than
  the ceiling \<open>2 ^ 33 + 1\<close>.
\<close>

theorem memoryQuantityToMb_precision_loss:
  "memoryQuantityToMb (quantity 9007199254740993) = 8589934592 \<and>
   \<lceil>real_of_int (Value (quantity 9007199254740993)) / 2 ^ 20\<rceil> = 8589934593"
proof -
  have v: "Value (quantity 9007199254740993) = 9007199254740993" by (simp add: quantity_def)
  have a: "memoryQuantityToMb (quantity 9007199254740993) = 8589934592"
    by (simp only: memoryQuantityToMb_def v float64_above float64_div_ceil_above)
  have b: "\<lceil>real_of_int (Value (quantity 9007199254740993)) / 2 ^ 20\<rceil> = 8589934593"
    unfolding v by simp
  from a b show ?thesis by (rule conjI)
qed

section \<open>Device changes\<close>

lemma upt_Suc_shift: "[0..<Suc n] = 0 # map Suc [0..<n]"
  by (simp add: upt_conv_Cons map_Suc_upt del: upt_Suc)

lemma deviceChangeSpecs_edit_result:
  "\<forall>i<length devs.
      EthernetCardBackingInfo B (tr @ replicate i (Call_EthernetCardBackingInfo nw)) nw = Inr (bk i) \<Longrightarrow>
   deviceChangeSpecs_edit B nw devs acc tr =
     (Inr (acc @ map (\<lambda>i. deviceConfigSpec ((devs ! i)\<lparr>Backing := bk i\<rparr>) OperationEdit)
                   [0..<length devs]),
      tr @ replicate (length devs) (Call_EthernetCardBackingInfo nw))"
proof (induction devs arbitrary: acc tr bk)
  case Nil
  then show ?case by simp
next
  case (Cons dev devs)
  let ?c = "Call_EthernetCardBackingInfo nw"
  from Cons.prems have b0: "EthernetCardBackingInfo B tr nw = Inr (bk 0)"
    by force
  have rest: "\<forall>i<length devs.
      EthernetCardBackingInfo B ((tr @ [?c]) @ replicate i ?c) nw = Inr ((bk \<circ> Suc) i)"
  proof (intro allI impI)
    fix i assume "i < length devs"
    then have "Suc i < length (dev # devs)" by simp
    with Cons.prems have "EthernetCardBackingInfo B (tr @ replicate (Suc i) ?c) nw = Inr (bk (Suc i))"
      by blast
    then show "EthernetCardBackingInfo B ((tr @ [?c]) @ replicate i ?c) nw = Inr ((bk \<circ> Suc) i)"
      by simp
  qed
  have "deviceChangeSpecs_edit B nw (dev # devs) acc tr =
          deviceChangeSpecs_edit B nw devs
            (acc @ [deviceConfigSpec (dev\<lparr>Backing := bk 0\<rparr>) OperationEdit]) (tr @ [?c])"
    using b0 by (simp add: invoke_def)
  also have "\<dots> =
     (Inr ((acc @ [deviceConfigSpec (dev\<lparr>Backing := bk 0\<rparr>) OperationEdit]) @
            map (\<lambda>i. deviceConfigSpec ((devs ! i)\<lparr>Backing := (bk \<circ> Suc) i\<rparr>) OperationEdit)
              [0..<length devs]),
      (tr @ [?c]) @ replicate (length devs) ?c)"
    by (rule Cons.IH [OF rest])
  also have "\<dots> =
     (Inr (acc @ map (\<lambda>i. deviceConfigSpec (((dev # devs) ! i)\<lparr>Backing := bk i\<rparr>) OperationEdit)
                   [0..<length (dev # devs)]),
      tr @ replicate (length (dev # devs)) ?c)"
    by (simp add: upt_Suc_shift comp_def del: upt_Suc)
  finally show ?case .
qed

lemma deviceSpecsFromVM_loop_result:
  "deviceSpecsFromVM_loop B vm vifs key acc tr = (Inr specs, tr') \<Longrightarrow>
     \<exists>devs. length devs = length vifs \<and>
       specs = acc @ map (\<lambda>i. deviceConfigSpec (setVnicKey (devs ! i) (key - of_nat i)) OperationAdd)
                       [0..<length vifs]"
proof (induction vifs arbitrary: key acc tr)
  case Nil
  then show ?case by simp
next
  case (Cons vif vifs)
  from Cons.prems obtain np dev where
    step: "deviceSpecsFromVM_loop B vm vifs (key - 1)
             (acc @ [deviceConfigSpec (setVnicKey dev key) OperationAdd])
             (tr @ [Call_CreateVnic np vif]) = (Inr specs, tr')"
    by (auto simp: invoke_def split: sum.splits prod.splits)
  from Cons.IH [OF step] obtain devs where
    devs: "length devs = length vifs"
      "specs = (acc @ [deviceConfigSpec (setVnicKey dev key) OperationAdd]) @
         map (\<lambda>i. deviceConfigSpec (setVnicKey (devs ! i) (key - 1 - of_nat i)) OperationAdd)
           [0..<length vifs]"
    by blast
  have "specs = acc @ map (\<lambda>i. deviceConfigSpec (setVnicKey ((dev # devs) ! i) (key - of_nat i)) OperationAdd)
                       [0..<length (vif # vifs)]"
    using devs(2) by (simp add: upt_Suc_shift comp_def diff_diff_eq del: upt_Suc)
  with devs(1) show ?case
    by (intro exI [of _ "dev # devs"]) simp
qed

lemma deviceSpecsFromVM_result:
  assumes "deviceSpecsFromVM B vm tr = (Inr specs, tr')"
  shows "length specs = length (NetworkInterfaces (Spec vm))"
    and "i < length (NetworkInterfaces (Spec vm)) \<Longrightarrow> Key (Device (specs ! i)) = - 100 - of_nat i"
    and "i < length (NetworkInterfaces (Spec vm)) \<Longrightarrow> Operation (specs ! i) = OperationAdd"
  using deviceSpecsFromVM_loop_result [OF assms [unfolded deviceSpecsFromVM_def]]
  by (auto simp: deviceConfigSpec_def setVnicKey_def)

lemma sint_temporary_key:
  assumes "i \<le> 2147483548"
  shows "sint (- 100 - of_nat i :: 32 word) = - 100 - int i"
proof -
  have "(- 100 - of_nat i :: 32 word) = word_of_int (- 100 - int i)" by simp
  moreover have "sint (word_of_int (- 100 - int i) :: 32 word) = signed_take_bit 31 (- 100 - int i)"
    by (simp only: signed_of_int) simp
  moreover have "signed_take_bit 31 (- 100 - int i) = - 100 - int i"
    using assms by (intro signed_take_bit_int_eq_self) simp_all
  ultimately show ?thesis by (simp only:)
qed

lemma upt_Suc_shift_map: "map f [0..<Suc n] = f 0 # map (\<lambda>i. f (Suc i)) [0..<n]"
  by (simp add: upt_Suc_shift comp_def del: upt_Suc)

lemma deviceSpecsFromVM_loop_exact:
  "\<forall>i<length vifs.
      getNetworkProviderByType B (NetworkType (vifs ! i)) = Inr (np i) \<and>
      CreateVnic B (tr @ map (\<lambda>j. Call_CreateVnic (np j) (vifs ! j)) [0..<i]) (np i) vm (vifs ! i) =
        Inr (dev i) \<Longrightarrow>
   deviceSpecsFromVM_loop B vm vifs key acc tr =
     (Inr (acc @ map (\<lambda>i. deviceConfigSpec (setVnicKey (dev i) (key - of_nat i)) OperationAdd)
                   [0..<length vifs]),
      tr @ map (\<lambda>j. Call_CreateVnic (np j) (vifs ! j)) [0..<length vifs])"
proof (induction vifs arbitrary: key acc tr np dev)
  case Nil
  then show ?case by simp
next
  case (Cons vif vifs)
  let ?c = "Call_CreateVnic (np 0) vif"
  from Cons.prems have p0: "getNetworkProviderByType B (NetworkType vif) = Inr (np 0)"
    and v0: "CreateVnic B tr (np 0) vm vif = Inr (dev 0)"
    by force+
  have rest: "\<forall>i<length vifs.
      getNetworkProviderByType B (NetworkType (vifs ! i)) = Inr ((np \<circ> Suc) i) \<and>
      CreateVnic B ((tr @ [?c]) @ map (\<lambda>j. Call_CreateVnic ((np \<circ> Suc) j) (vifs ! j)) [0..<i])
        ((np \<circ> Suc) i) vm (vifs ! i) = Inr ((dev \<circ> Suc) i)"
  proof (intro allI impI)
    fix i assume "i < length vifs"
    then have "Suc i < length (vif # vifs)" by simp
    with Cons.prems have
      "getNetworkProviderByType B (NetworkType ((vif # vifs) ! Suc i)) = Inr (np (Suc i)) \<and>
       CreateVnic B (tr @ map (\<lambda>j. Call_CreateVnic (np j) ((vif # vifs) ! j)) [0..<Suc i])
         (np (Suc i)) vm ((vif # vifs) ! Suc i) = Inr (dev (Suc i))"
      by blast
    then show "getNetworkProviderByType B (NetworkType (vifs ! i)) = Inr ((np \<circ> Suc) i) \<and>
      CreateVnic B ((tr @ [?c]) @ map (\<lambda>j. Call_CreateVnic ((np \<circ> Suc) j) (vifs ! j)) [0..<i])
        ((np \<circ> Suc) i) vm (vifs ! i) = Inr ((dev \<circ> Suc) i)"
      by (simp add: upt_Suc_shift_map del: upt_Suc)
  qed
  have "deviceSpecsFromVM_loop B vm (vif # vifs) key acc tr =
          deviceSpecsFromVM_loop B vm vifs (key - 1)
            (acc @ [deviceConfigSpec (setVnicKey (dev 0) key) OperationAdd]) (tr @ [?c])"
    using p0 v0 by (simp add: invoke_def)
  also have "\<dots> =
     (Inr ((acc @ [deviceConfigSpec (setVnicKey (dev 0) key) OperationAdd]) @
            map (\<lambda>i. deviceConfigSpec (setVnicKey ((dev \<circ> Suc) i) (key - 1 - of_nat i)) OperationAdd)
              [0..<length vifs]),
      (tr @ [?c]) @ map (\<lambda>j. Call_CreateVnic ((np \<circ> Suc) j) (vifs ! j)) [0..<length vifs])"
    by (rule Cons.IH [OF rest])
  also have "\<dots> =
     (Inr (acc @ map (\<lambda>i. deviceConfigSpec (setVnicKey (dev i) (key - of_nat i)) OperationAdd)
                   [0..<length (vif # vifs)]),
      tr @ map (\<lambda>j. Call_CreateVnic (np j) ((vif # vifs) ! j)) [0..<length (vif # vifs)])"
    by (simp add: upt_Suc_shift_map diff_diff_eq del: upt_Suc)
  finally show ?case .
qed

lemma deviceSpecsFromVM_loop_unsupported:
  "\<exists>vif\<in>set vifs. NetworkType vif \<noteq> NsxtNetworkType B \<and> NetworkType vif \<noteq> [] \<Longrightarrow>
   isl (fst (deviceSpecsFromVM_loop B vm vifs key acc tr))"
proof (induction vifs arbitrary: key acc tr)
  case Nil
  then show ?case by simp
next
  case (Cons vif vifs)
  show ?case
  proof (cases "NetworkType vif \<noteq> NsxtNetworkType B \<and> NetworkType vif \<noteq> []")
    case True
    then show ?thesis by (simp add: getNetworkProviderByType_def)
  next
    case False
    with Cons.prems have
      r: "\<exists>vif\<in>set vifs. NetworkType vif \<noteq> NsxtNetworkType B \<and> NetworkType vif \<noteq> []"
      by auto
    show ?thesis
      using Cons.IH [OF r]
      by (simp add: invoke_def split: sum.splits)
  qed
qed

lemma deviceChangeSpecs_first_call:
  "deviceChangeSpecs B s vm resSrcVm tr = (r, tr') \<Longrightarrow>
     \<exists>ext. tr' = tr @ Call_GetNetworkDevices resSrcVm # ext"
  by (auto simp: deviceChangeSpecs_def invoke_eq
           split: prod.splits sum.splits option.splits if_splits
           dest!: deviceSpecsFromVM_calls deviceChangeSpecs_edit_calls)

lemma deviceSpecsFromVM_loop_built_calls:
  "deviceSpecsFromVM_loop B vm vifs key acc tr = (Inr specs, tr') \<Longrightarrow>
     \<exists>ext. tr' = tr @ ext \<and> length ext = length vifs \<and> only {''CreateVnic''} ext"
proof (induction vifs arbitrary: key acc tr)
  case Nil
  then show ?case by simp
next
  case (Cons vif vifs)
  from Cons.prems obtain np dev where
    r: "deviceSpecsFromVM_loop B vm vifs (key - 1)
          (acc @ [deviceConfigSpec (setVnicKey dev key) OperationAdd])
          (tr @ [Call_CreateVnic np vif]) = (Inr specs, tr')"
    by (auto simp: invoke_def split: sum.splits)
  from Cons.IH [OF r] obtain ext where
    "tr' = (tr @ [Call_CreateVnic np vif]) @ ext" "length ext = length vifs"
    "only {''CreateVnic''} ext" by blast
  then have "tr' = tr @ (Call_CreateVnic np vif # ext) \<and>
             length (Call_CreateVnic np vif # ext) = length (vif # vifs) \<and>
             only {''CreateVnic''} (Call_CreateVnic np vif # ext)"
    by simp
  then show ?case by blast
qed

lemma lookupVm_found_calls:
  "lookupVm B name tr = (Inr resVm, tr') \<Longrightarrow>
     \<exists>objVm. tr' = tr @ [Call_Finder_VirtualMachine name, Call_NewVMFromObject objVm]"
  by (auto simp: lookupVm_def invoke_eq split: prod.splits sum.splits)

text \<open>
  C4. With no interface in the spec and the devices of the remote VM listed: without a
  default network the result is no change at all; with a default network whose backing
  is obtained for each device, the result is one edit change for each existing device,
  in order, the device unchanged but for its backing, and no other change.
\<close>

theorem deviceChangeSpecs_no_interfaces:
  assumes none: "NetworkInterfaces (Spec vm) = []"
      and devs: "vm_GetNetworkDevices B tr resSrcVm = Inr netDevices"
  shows "(network s = None \<longrightarrow>
            deviceChangeSpecs B s vm resSrcVm tr = (Inr [], tr @ [Call_GetNetworkDevices resSrcVm])) \<and>
         (\<forall>nw bk. network s = Some nw \<and>
            (\<forall>i<length netDevices.
                EthernetCardBackingInfo B
                  (tr @ Call_GetNetworkDevices resSrcVm # replicate i (Call_EthernetCardBackingInfo nw))
                  nw = Inr (bk i)) \<longrightarrow>
            (\<exists>specs. fst (deviceChangeSpecs B s vm resSrcVm tr) = Inr specs \<and>
               specs = map (\<lambda>i. deviceConfigSpec ((netDevices ! i)\<lparr>Backing := bk i\<rparr>) OperationEdit)
                         [0..<length netDevices] \<and>
               length specs = length netDevices \<and>
               list_all (\<lambda>c. Operation c = OperationEdit) specs))"
proof (intro conjI allI impI)
  assume "network s = None"
  then show "deviceChangeSpecs B s vm resSrcVm tr = (Inr [], tr @ [Call_GetNetworkDevices resSrcVm])"
    using none devs by (simp add: deviceChangeSpecs_def invoke_def)
next
  fix nw bk
  let ?tr1 = "tr @ [Call_GetNetworkDevices resSrcVm]"
  assume a: "network s = Some nw \<and>
            (\<forall>i<length netDevices.
                EthernetCardBackingInfo B
                  (tr @ Call_GetNetworkDevices resSrcVm # replicate i (Call_EthernetCardBackingInfo nw))
                  nw = Inr (bk i))"
  then have "\<forall>i<length netDevices.
      EthernetCardBackingInfo B (?tr1 @ replicate i (Call_EthernetCardBackingInfo nw)) nw = Inr (bk i)"
    by simp
  from deviceChangeSpecs_edit_result [OF this, of "[]"]
  have "fst (deviceChangeSpecs B s vm resSrcVm tr) =
          Inr (map (\<lambda>i. deviceConfigSpec ((netDevices ! i)\<lparr>Backing := bk i\<rparr>) OperationEdit)
                 [0..<length netDevices])"
    using a none devs by (simp add: deviceChangeSpecs_def invoke_def)
  then show "\<exists>specs. fst (deviceChangeSpecs B s vm resSrcVm tr) = Inr specs \<and>
               specs = map (\<lambda>i. deviceConfigSpec ((netDevices ! i)\<lparr>Backing := bk i\<rparr>) OperationEdit)
                         [0..<length netDevices] \<and>
               length specs = length netDevices \<and>
               list_all (\<lambda>c. Operation c = OperationEdit) specs"
    by (simp add: list_all_iff deviceConfigSpec_def)
qed

theorem deviceChangeSpecs_no_interfaces_witness:
  "NetworkInterfaces (Spec vm0) = [] \<and>
   vm_GetNetworkDevices backend0 [] resVm0 = Inr [nic 4000, nic 4001] \<and>
   deviceChangeSpecs backend0 session0 vm0 resVm0 [] = (Inr [], [Call_GetNetworkDevices resVm0]) \<and>
   fst (deviceChangeSpecs backend0
          (session0\<lparr>network := Some \<lparr>RefName = ''dvportgroup'', RefValue = ''network-7''\<rparr>\<rparr>)
          vm0 resVm0 []) =
     Inr [deviceConfigSpec ((nic 4000)\<lparr>Backing := ''dvportgroup''\<rparr>) OperationEdit,
          deviceConfigSpec ((nic 4001)\<lparr>Backing := ''dvportgroup''\<rparr>) OperationEdit]"
proof -
  let ?nw = "\<lparr>RefName = ''dvportgroup'', RefValue = ''network-7''\<rparr>"
  let ?s = "session0\<lparr>network := Some ?nw\<rparr>"
  have h1: "NetworkInterfaces (Spec vm0) = []" by (simp add: vm0_def)
  have h2: "vm_GetNetworkDevices backend0 [] resVm0 = Inr [nic 4000, nic 4001]"
    by (simp add: backend0_def)
  have n0: "network session0 = None" by (simp add: session0_def)
  have n1: "network ?s = Some ?nw" by simp
  have bk: "\<forall>i<length [nic 4000, nic 4001].
      EthernetCardBackingInfo backend0
        ([] @ Call_GetNetworkDevices resVm0 # replicate i (Call_EthernetCardBackingInfo ?nw)) ?nw =
        Inr ((\<lambda>i. ''dvportgroup'') i)"
    by (simp add: backend0_def)
  note t0 = deviceChangeSpecs_no_interfaces [OF h1 h2, of session0]
  note t1 = deviceChangeSpecs_no_interfaces [OF h1 h2, of ?s]
  from t0 n0 have a: "deviceChangeSpecs backend0 session0 vm0 resVm0 [] =
      (Inr [], [Call_GetNetworkDevices resVm0])" by simp
  have "\<exists>specs. fst (deviceChangeSpecs backend0 ?s vm0 resVm0 []) = Inr specs \<and>
      specs = map (\<lambda>i. deviceConfigSpec (([nic 4000, nic 4001] ! i)\<lparr>Backing := ''dvportgroup''\<rparr>)
                        OperationEdit) [0..<length [nic 4000, nic 4001]] \<and>
      length specs = length [nic 4000, nic 4001] \<and>
      list_all (\<lambda>c. Operation c = OperationEdit) specs"
    by (rule t1 [THEN conjunct2, rule_format, of ?nw "\<lambda>i. ''dvportgroup''", OF conjI [OF n1 bk]])
  then have b: "fst (deviceChangeSpecs backend0 ?s vm0 resVm0 []) =
     Inr [deviceConfigSpec ((nic 4000)\<lparr>Backing := ''dvportgroup''\<rparr>) OperationEdit,
          deviceConfigSpec ((nic 4001)\<lparr>Backing := ''dvportgroup''\<rparr>) OperationEdit]"
    by (simp add: upt_rec [of 0] upt_rec [of 1] upt_rec [of "Suc 0"])
  from h1 h2 a b show ?thesis by (intro conjI)
qed

text \<open>
  C5. With at least one interface in the spec and the devices of the remote VM listed:
  when every interface has a supported network type (the NSX-T type or none) and its
  device is created, the result is one remove change for each existing device, in
  order, followed by one add change for each interface, in order, with the keys
  \<open>- 100, - 101, \<dots>\<close>, and the calls made are the listing of the devices and one
  creation for each interface. When an interface has any other network type the result
  is an error, and no change. Whatever the collaborators answer, a list of changes that
  is returned is the removes followed by as many adds as the spec has interfaces.
\<close>

theorem deviceChangeSpecs_replace:
  assumes some: "NetworkInterfaces (Spec vm) \<noteq> []"
      and devs: "vm_GetNetworkDevices B tr resSrcVm = Inr netDevices"
  shows "((\<forall>i<length (NetworkInterfaces (Spec vm)).
             getNetworkProviderByType B (NetworkType (NetworkInterfaces (Spec vm) ! i)) = Inr (np i) \<and>
             CreateVnic B
               (tr @ Call_GetNetworkDevices resSrcVm #
                  map (\<lambda>j. Call_CreateVnic (np j) (NetworkInterfaces (Spec vm) ! j)) [0..<i])
               (np i) vm (NetworkInterfaces (Spec vm) ! i) = Inr (dev i)) \<longrightarrow>
          deviceChangeSpecs B s vm resSrcVm tr =
            (Inr (map (\<lambda>d. deviceConfigSpec d OperationRemove) netDevices @
                  map (\<lambda>i. deviceConfigSpec (setVnicKey (dev i) (- 100 - of_nat i)) OperationAdd)
                    [0..<length (NetworkInterfaces (Spec vm))]),
             tr @ Call_GetNetworkDevices resSrcVm #
               map (\<lambda>j. Call_CreateVnic (np j) (NetworkInterfaces (Spec vm) ! j))
                 [0..<length (NetworkInterfaces (Spec vm))])) \<and>
         ((\<exists>vif\<in>set (NetworkInterfaces (Spec vm)).
             NetworkType vif \<noteq> NsxtNetworkType B \<and> NetworkType vif \<noteq> []) \<longrightarrow>
          isl (fst (deviceChangeSpecs B s vm resSrcVm tr))) \<and>
         (\<forall>specs. fst (deviceChangeSpecs B s vm resSrcVm tr) = Inr specs \<longrightarrow>
            (\<exists>adds. specs = map (\<lambda>d. deviceConfigSpec d OperationRemove) netDevices @ adds \<and>
               length adds = length (NetworkInterfaces (Spec vm)) \<and>
               list_all (\<lambda>c. Operation c = OperationAdd) adds))"
proof (intro conjI allI impI)
  let ?vifs = "NetworkInterfaces (Spec vm)"
  let ?tr1 = "tr @ [Call_GetNetworkDevices resSrcVm]"
  assume "\<forall>i<length ?vifs.
             getNetworkProviderByType B (NetworkType (?vifs ! i)) = Inr (np i) \<and>
             CreateVnic B
               (tr @ Call_GetNetworkDevices resSrcVm #
                  map (\<lambda>j. Call_CreateVnic (np j) (?vifs ! j)) [0..<i])
               (np i) vm (?vifs ! i) = Inr (dev i)"
  then have "\<forall>i<length ?vifs.
             getNetworkProviderByType B (NetworkType (?vifs ! i)) = Inr (np i) \<and>
             CreateVnic B (?tr1 @ map (\<lambda>j. Call_CreateVnic (np j) (?vifs ! j)) [0..<i])
               (np i) vm (?vifs ! i) = Inr (dev i)"
    by simp
  from deviceSpecsFromVM_loop_exact [OF this, of "- 100" "[]"]
  show "deviceChangeSpecs B s vm resSrcVm tr =
            (Inr (map (\<lambda>d. deviceConfigSpec d OperationRemove) netDevices @
                  map (\<lambda>i. deviceConfigSpec (setVnicKey (dev i) (- 100 - of_nat i)) OperationAdd)
                    [0..<length ?vifs]),
             tr @ Call_GetNetworkDevices resSrcVm #
               map (\<lambda>j. Call_CreateVnic (np j) (?vifs ! j)) [0..<length ?vifs])"
    using some devs by (simp add: deviceChangeSpecs_def deviceSpecsFromVM_def invoke_def)
next
  assume "\<exists>vif\<in>set (NetworkInterfaces (Spec vm)).
             NetworkType vif \<noteq> NsxtNetworkType B \<and> NetworkType vif \<noteq> []"
  from deviceSpecsFromVM_loop_unsupported [OF this, of vm "- 100" "[]" "tr @ [Call_GetNetworkDevices resSrcVm]"]
  show "isl (fst (deviceChangeSpecs B s vm resSrcVm tr))"
    using some devs
    by (auto simp: deviceChangeSpecs_def deviceSpecsFromVM_def invoke_def
             split: prod.splits sum.splits)
next
  fix specs
  assume r: "fst (deviceChangeSpecs B s vm resSrcVm tr) = Inr specs"
  obtain ra tr' where a: "deviceSpecsFromVM B vm (tr @ [Call_GetNetworkDevices resSrcVm]) = (ra, tr')"
    by (cases "deviceSpecsFromVM B vm (tr @ [Call_GetNetworkDevices resSrcVm])")
  from r a some devs obtain adds where
    adds: "ra = Inr adds" "specs = map (\<lambda>d. deviceConfigSpec d OperationRemove) netDevices @ adds"
    by (cases ra) (auto simp: deviceChangeSpecs_def invoke_def)
  from a adds(1) have a': "deviceSpecsFromVM B vm (tr @ [Call_GetNetworkDevices resSrcVm]) = (Inr adds, tr')"
    by simp
  have "list_all (\<lambda>c. Operation c = OperationAdd) adds"
    unfolding list_all_length using deviceSpecsFromVM_result [OF a'] by simp
  with adds(2) deviceSpecsFromVM_result(1) [OF a']
  show "\<exists>adds. specs = map (\<lambda>d. deviceConfigSpec d OperationRemove) netDevices @ adds \<and>
               length adds = length (NetworkInterfaces (Spec vm)) \<and>
               list_all (\<lambda>c. Operation c = OperationAdd) adds"
    by blast
qed

theorem deviceChangeSpecs_replace_witness:
  "NetworkInterfaces (Spec (with_interfaces [vif0] vm0)) \<noteq> [] \<and>
   vm_GetNetworkDevices backend0 [] resVm0 = Inr [nic 4000, nic 4001] \<and>
   deviceChangeSpecs backend0 session0 (with_interfaces [vif0] vm0) resVm0 [] =
     (Inr [deviceConfigSpec (nic 4000) OperationRemove,
           deviceConfigSpec (nic 4001) OperationRemove,
           deviceConfigSpec \<lparr>Key = - 100, Backing = ''VM Network'', DeviceInfo = ''vmxnet3''\<rparr>
             OperationAdd],
      [Call_GetNetworkDevices resVm0, Call_CreateVnic DefaultNetworkProvider vif0])"
proof -
  let ?vm = "with_interfaces [vif0] vm0"
  let ?dev = "\<lambda>i::nat. \<lparr>Key = 0, Backing = ''VM Network'', DeviceInfo = ''vmxnet3''\<rparr>"
  have n: "NetworkInterfaces (Spec ?vm) = [vif0]" by (simp add: with_interfaces_def)
  have h1: "NetworkInterfaces (Spec ?vm) \<noteq> []" by (simp add: n)
  have h2: "vm_GetNetworkDevices backend0 [] resVm0 = Inr [nic 4000, nic 4001]"
    by (simp add: backend0_def)
  have h3: "\<forall>i<length (NetworkInterfaces (Spec ?vm)).
      getNetworkProviderByType backend0 (NetworkType (NetworkInterfaces (Spec ?vm) ! i)) =
        Inr ((\<lambda>i. DefaultNetworkProvider) i) \<and>
      CreateVnic backend0
        ([] @ Call_GetNetworkDevices resVm0 #
           map (\<lambda>j. Call_CreateVnic ((\<lambda>i. DefaultNetworkProvider) j) (NetworkInterfaces (Spec ?vm) ! j))
             [0..<i])
        ((\<lambda>i. DefaultNetworkProvider) i) ?vm (NetworkInterfaces (Spec ?vm) ! i) = Inr (?dev i)"
    unfolding n
    by (auto simp: getNetworkProviderByType_def vif0_def backend0_def less_Suc_eq)
  note t = deviceChangeSpecs_replace [OF h1 h2, of "\<lambda>i. DefaultNetworkProvider" ?dev session0,
             THEN conjunct1, THEN mp, OF h3]
  have "deviceChangeSpecs backend0 session0 ?vm resVm0 [] =
     (Inr [deviceConfigSpec (nic 4000) OperationRemove,
           deviceConfigSpec (nic 4001) OperationRemove,
           deviceConfigSpec \<lparr>Key = - 100, Backing = ''VM Network'', DeviceInfo = ''vmxnet3''\<rparr>
             OperationAdd],
      [Call_GetNetworkDevices resVm0, Call_CreateVnic DefaultNetworkProvider vif0])"
    using t by (simp add: n setVnicKey_def)
  with h1 h2 show ?thesis by (intro conjI)
qed

text \<open>
  With two existing devices and one interface of the network type \<^verbatim>\<open>bogus\<close> the result
  is the error of \<^verbatim>\<open>getNetworkProviderByType\<close>, wrapped, and neither a remove nor an add
  change.
\<close>

theorem deviceChangeSpecs_unsupported_type_counterexample:
  "NetworkInterfaces (Spec (with_interfaces [bogus_vif] vm0)) = [bogus_vif] \<and>
   vm_GetNetworkDevices backend0 [] resVm0 = Inr [nic 4000, nic 4001] \<and>
   deviceChangeSpecs backend0 session0 (with_interfaces [bogus_vif] vm0) resVm0 [] =
     (Inl (Wrap (Errorf ''failed to create network provider for network type %s'' [''bogus''])
             ''failed to get network provider'' []),
      [Call_GetNetworkDevices resVm0])"
  by (simp add: deviceChangeSpecs_def deviceSpecsFromVM_def getNetworkProviderByType_def
        invoke_def with_interfaces_def bogus_vif_def backend0_def)

text \<open>
  C9. The changes \<^verbatim>\<open>deviceSpecsFromVM\<close> returns are add changes whose keys, read as
  signed 32-bit integers, are \<open>- 100, - 101, \<dots>\<close> in order: negative and pairwise
  distinct. When every interface has a supported network type and its device is
  created, the function returns these changes, one for each interface. The key is an
  \<^verbatim>\<open>int32\<close> counted down from \<open>- 100\<close>; the spec has at most \<open>2 ^ 31 - 99\<close> interfaces,
  a number no \<^verbatim>\<open>VirtualMachine\<close> object reaches.
\<close>

theorem deviceSpecsFromVM_keys:
  assumes bound: "length (NetworkInterfaces (Spec vm)) \<le> 2147483549"
  shows "(\<forall>specs tr'. deviceSpecsFromVM B vm tr = (Inr specs, tr') \<longrightarrow>
            map (\<lambda>c. sint (Key (Device c))) specs =
              map (\<lambda>i. - 100 - int i) [0..<length (NetworkInterfaces (Spec vm))] \<and>
            distinct (map (\<lambda>c. Key (Device c)) specs) \<and>
            list_all (\<lambda>c. sint (Key (Device c)) < 0 \<and> Operation c = OperationAdd) specs) \<and>
         ((\<forall>i<length (NetworkInterfaces (Spec vm)).
             getNetworkProviderByType B (NetworkType (NetworkInterfaces (Spec vm) ! i)) = Inr (np i) \<and>
             CreateVnic B
               (tr @ map (\<lambda>j. Call_CreateVnic (np j) (NetworkInterfaces (Spec vm) ! j)) [0..<i])
               (np i) vm (NetworkInterfaces (Spec vm) ! i) = Inr (dev i)) \<longrightarrow>
          deviceSpecsFromVM B vm tr =
            (Inr (map (\<lambda>i. deviceConfigSpec (setVnicKey (dev i) (- 100 - of_nat i)) OperationAdd)
                    [0..<length (NetworkInterfaces (Spec vm))]),
             tr @ map (\<lambda>j. Call_CreateVnic (np j) (NetworkInterfaces (Spec vm) ! j))
                    [0..<length (NetworkInterfaces (Spec vm))]))"
proof (intro conjI allI impI)
  fix specs tr'
  assume specs: "deviceSpecsFromVM B vm tr = (Inr specs, tr')"
  let ?n = "length (NetworkInterfaces (Spec vm))"
  note r = deviceSpecsFromVM_result [OF specs]
  have key: "sint (Key (Device (specs ! i))) = - 100 - int i" if "i < ?n" for i
    using that bound r(2) [OF that] sint_temporary_key [of i] by simp
  show "map (\<lambda>c. sint (Key (Device c))) specs = map (\<lambda>i. - 100 - int i) [0..<?n]"
    by (rule nth_equalityI) (simp_all add: r(1) key)
  then have m: "map (\<lambda>c. sint (Key (Device c))) specs = map (\<lambda>i. - 100 - int i) [0..<?n]" .
  have "distinct (map (\<lambda>i. - 100 - int i) [0..<?n])"
    by (simp add: distinct_map inj_on_def)
  with m have "distinct (map (\<lambda>c. sint (Key (Device c))) specs)" by simp
  then have "distinct (map sint (map (\<lambda>c. Key (Device c)) specs))" by (simp add: comp_def)
  then show "distinct (map (\<lambda>c. Key (Device c)) specs)"
    by (simp only: distinct_map)
  show "list_all (\<lambda>c. sint (Key (Device c)) < 0 \<and> Operation c = OperationAdd) specs"
    unfolding list_all_length using key r(1) r(3) by simp
next
  assume "\<forall>i<length (NetworkInterfaces (Spec vm)).
             getNetworkProviderByType B (NetworkType (NetworkInterfaces (Spec vm) ! i)) = Inr (np i) \<and>
             CreateVnic B
               (tr @ map (\<lambda>j. Call_CreateVnic (np j) (NetworkInterfaces (Spec vm) ! j)) [0..<i])
               (np i) vm (NetworkInterfaces (Spec vm) ! i) = Inr (dev i)"
  from deviceSpecsFromVM_loop_exact [OF this, of "- 100" "[]"]
  show "deviceSpecsFromVM B vm tr =
            (Inr (map (\<lambda>i. deviceConfigSpec (setVnicKey (dev i) (- 100 - of_nat i)) OperationAdd)
                    [0..<length (NetworkInterfaces (Spec vm))]),
             tr @ map (\<lambda>j. Call_CreateVnic (np j) (NetworkInterfaces (Spec vm) ! j))
                    [0..<length (NetworkInterfaces (Spec vm))])"
    by (simp add: deviceSpecsFromVM_def)
qed

theorem deviceSpecsFromVM_keys_witness:
  "length (NetworkInterfaces (Spec (with_interfaces [vif0, vif0] vm0))) \<le> 2147483549 \<and>
   deviceSpecsFromVM backend0 (with_interfaces [vif0, vif0] vm0) [] =
     (Inr [deviceConfigSpec \<lparr>Key = - 100, Backing = ''VM Network'', DeviceInfo = ''vmxnet3''\<rparr>
             OperationAdd,
           deviceConfigSpec \<lparr>Key = - 101, Backing = ''VM Network'', DeviceInfo = ''vmxnet3''\<rparr>
             OperationAdd],
      [Call_CreateVnic DefaultNetworkProvider vif0, Call_CreateVnic DefaultNetworkProvider vif0]) \<and>
   map (\<lambda>c. sint (Key (Device c)))
     [deviceConfigSpec \<lparr>Key = - 100, Backing = ''VM Network'', DeviceInfo = ''vmxnet3''\<rparr>
        OperationAdd,
      deviceConfigSpec \<lparr>Key = - 101, Backing = ''VM Network'', DeviceInfo = ''vmxnet3''\<rparr>
        OperationAdd] = [- 100, - 101] \<and>
   distinct (map (\<lambda>c. Key (Device c))
     [deviceConfigSpec \<lparr>Key = - 100, Backing = ''VM Network'', DeviceInfo = ''vmxnet3''\<rparr>
        OperationAdd,
      deviceConfigSpec \<lparr>Key = - 101, Backing = ''VM Network'', DeviceInfo = ''vmxnet3''\<rparr>
        OperationAdd])"
proof -
  let ?vm = "with_interfaces [vif0, vif0] vm0"
  let ?dev = "\<lambda>i::nat. \<lparr>Key = 0, Backing = ''VM Network'', DeviceInfo = ''vmxnet3''\<rparr>"
  let ?specs = "[deviceConfigSpec \<lparr>Key = - 100, Backing = ''VM Network'', DeviceInfo = ''vmxnet3''\<rparr>
             OperationAdd,
           deviceConfigSpec \<lparr>Key = - 101, Backing = ''VM Network'', DeviceInfo = ''vmxnet3''\<rparr>
             OperationAdd]"
  have n: "NetworkInterfaces (Spec ?vm) = [vif0, vif0]" by (simp add: with_interfaces_def)
  have h: "length (NetworkInterfaces (Spec ?vm)) \<le> 2147483549" by (simp add: n)
  have h3: "\<forall>i<length (NetworkInterfaces (Spec ?vm)).
      getNetworkProviderByType backend0 (NetworkType (NetworkInterfaces (Spec ?vm) ! i)) =
        Inr ((\<lambda>i. DefaultNetworkProvider) i) \<and>
      CreateVnic backend0
        ([] @ map (\<lambda>j. Call_CreateVnic ((\<lambda>i. DefaultNetworkProvider) j) (NetworkInterfaces (Spec ?vm) ! j))
             [0..<i])
        ((\<lambda>i. DefaultNetworkProvider) i) ?vm (NetworkInterfaces (Spec ?vm) ! i) = Inr (?dev i)"
    unfolding n
    by (auto simp: getNetworkProviderByType_def vif0_def backend0_def less_Suc_eq)
  note t = deviceSpecsFromVM_keys [OF h, of backend0 "[]" "\<lambda>i. DefaultNetworkProvider" ?dev]
  from t [THEN conjunct2, THEN mp, OF h3]
  have a: "deviceSpecsFromVM backend0 ?vm [] =
     (Inr ?specs, [Call_CreateVnic DefaultNetworkProvider vif0, Call_CreateVnic DefaultNetworkProvider vif0])"
    by (simp add: n setVnicKey_def)
  from t [THEN conjunct1, rule_format, OF a]
  have b: "map (\<lambda>c. sint (Key (Device c))) ?specs = [- 100, - 101]"
    and c: "distinct (map (\<lambda>c. Key (Device c)) ?specs)"
    by (simp_all add: n)
  from h a b c show ?thesis by (intro conjI)
qed

section \<open>Create, update and delete\<close>

lemma CreateVirtualMachine_after_session:
  assumes "CreateVirtualMachine B vm vmClass vmMetadata profileID tr = (r, tr')"
      and "sessions_GetSession B tr (Namespace vm) = Inr ses"
      and "(if ImageName (Spec vm) = []
            then Session_CreateVirtualMachine B ses vm vmClass vmMetadata (tr @ [Call_GetSession (Namespace vm)])
            else Session_CloneVirtualMachine B ses vm vmClass vmMetadata profileID (tr @ [Call_GetSession (Namespace vm)])) = (r2, tr2)"
  shows "\<exists>ext. tr' = tr2 @ ext \<and> only {''waitForVnetIFStatus'', ''Customize'', ''GetStatus''} ext"
  using assms
  apply (simp add: CreateVirtualMachine_def invoke_eq Let_def del: split_paired_Ex split: prod.splits sum.splits)
  apply (auto simp: invoke_eq list_all_iff split: option.splits prod.splits sum.splits
          dest!: getCustomizationSpecs_calls mergeVmStatus_calls)
  done

lemma CreateVirtualMachine_calls:
  assumes ses: "sessions_GetSession B tr (Namespace vm) = Inr ses"
  shows "\<exists>rest. snd (CreateVirtualMachine B vm vmClass vmMetadata profileID tr) =
            tr @ Call_GetSession (Namespace vm) #
              (if ImageName (Spec vm) = [] then Call_Session_CreateVirtualMachine (Name vm)
               else Call_Session_CloneVirtualMachine (Name vm)) # rest \<and>
          list_all (\<lambda>c. call_name c \<notin>
                      (if ImageName (Spec vm) = [] then clone_path_ops else create_path_ops) \<and>
                      call_name c \<notin> {''Session.CreateVirtualMachine'', ''Session.CloneVirtualMachine''})
            rest"
proof -
  let ?tr1 = "tr @ [Call_GetSession (Namespace vm)]"
  obtain r tr' where c: "CreateVirtualMachine B vm vmClass vmMetadata profileID tr = (r, tr')"
    by (cases "CreateVirtualMachine B vm vmClass vmMetadata profileID tr")
  show ?thesis
  proof (cases "ImageName (Spec vm) = []")
    case True
    obtain r2 tr2 where s: "Session_CreateVirtualMachine B ses vm vmClass vmMetadata ?tr1 = (r2, tr2)"
      by (cases "Session_CreateVirtualMachine B ses vm vmClass vmMetadata ?tr1")
    from Session_CreateVirtualMachine_calls [OF s] obtain e1 where
      e1: "tr2 = ?tr1 @ Call_Session_CreateVirtualMachine (Name vm) # e1"
          "only {''CreateVnic'', ''Create'', ''SetPowerState''} e1" by blast
    from CreateVirtualMachine_after_session [OF c ses] s True obtain e2 where
      e2: "tr' = tr2 @ e2" "only {''waitForVnetIFStatus'', ''Customize'', ''GetStatus''} e2"
      by auto
    have "only (- clone_path_ops - {''Session.CreateVirtualMachine'', ''Session.CloneVirtualMachine''}) (e1 @ e2)"
      using e1(2) e2(2) by (auto simp: list_all_iff clone_path_ops_def)
    then show ?thesis using True c e1(1) e2(1)
      by (intro exI [of _ "e1 @ e2"]) (simp add: list_all_iff)
  next
    case False
    obtain r2 tr2 where s: "Session_CloneVirtualMachine B ses vm vmClass vmMetadata profileID ?tr1 = (r2, tr2)"
      by (cases "Session_CloneVirtualMachine B ses vm vmClass vmMetadata profileID ?tr1")
    from Session_CloneVirtualMachine_calls [OF s] obtain e1 where
      e1: "tr2 = ?tr1 @ Call_Session_CloneVirtualMachine (Name vm) # e1"
          "only {''Login'', ''Logout'', ''FindLibraryItems'', ''GetLibraryItem'',
             ''ParseAndRetrievePropsFromLibraryItem'', ''DeployLibraryItem'',
             ''Finder.ObjectReference'', ''Finder.VirtualMachine'', ''NewVMFromObject'',
             ''GetNetworkDevices'', ''EthernetCardBackingInfo'', ''CreateVnic'',
             ''GetVirtualDisks'', ''computeVMPlacement'', ''Clone'', ''Reconfigure''} e1" by blast
    from CreateVirtualMachine_after_session [OF c ses] s False obtain e2 where
      e2: "tr' = tr2 @ e2" "only {''waitForVnetIFStatus'', ''Customize'', ''GetStatus''} e2"
      by auto
    have "only (- create_path_ops - {''Session.CreateVirtualMachine'', ''Session.CloneVirtualMachine''}) (e1 @ e2)"
      using e1(2) e2(2) by (auto simp: list_all_iff create_path_ops_def)
    then show ?thesis using False c e1(1) e2(1)
      by (intro exI [of _ "e1 @ e2"]) (simp add: list_all_iff)
  qed
qed

text \<open>
  C2. On create, the choice between the two session methods depends on the image name
  only. With an empty image name no operation of the clone and deploy path is called,
  with any other image name no operation of the create path; and once the session is
  obtained, the call that follows is the entry of the selected method, and neither method
  is entered again.
\<close>

theorem CreateVirtualMachine_one_path:
  "list_all (\<lambda>c. call_name c \<notin>
               (if ImageName (Spec vm) = [] then clone_path_ops else create_path_ops))
     (calls_since tr (snd (CreateVirtualMachine B vm vmClass vmMetadata profileID tr))) \<and>
   (\<forall>ses. sessions_GetSession B tr (Namespace vm) = Inr ses \<longrightarrow>
      (\<exists>rest. snd (CreateVirtualMachine B vm vmClass vmMetadata profileID tr) =
          tr @ Call_GetSession (Namespace vm) #
            (if ImageName (Spec vm) = [] then Call_Session_CreateVirtualMachine (Name vm)
             else Call_Session_CloneVirtualMachine (Name vm)) # rest \<and>
        list_all (\<lambda>c. call_name c \<notin>
                    {''Session.CreateVirtualMachine'', ''Session.CloneVirtualMachine''}) rest))"
proof (cases "sessions_GetSession B tr (Namespace vm)")
  case (Inl err)
  then have "CreateVirtualMachine B vm vmClass vmMetadata profileID tr =
      (Inl err, tr @ [Call_GetSession (Namespace vm)])"
    by (simp add: CreateVirtualMachine_def invoke_def Let_def)
  then show ?thesis using Inl
    by (simp add: calls_since_def clone_path_ops_def create_path_ops_def)
next
  case (Inr ses)
  from CreateVirtualMachine_calls [OF Inr, of vmClass vmMetadata profileID] obtain rest where
    r: "snd (CreateVirtualMachine B vm vmClass vmMetadata profileID tr) =
          tr @ Call_GetSession (Namespace vm) #
            (if ImageName (Spec vm) = [] then Call_Session_CreateVirtualMachine (Name vm)
             else Call_Session_CloneVirtualMachine (Name vm)) # rest"
       "list_all (\<lambda>c. call_name c \<notin>
                      (if ImageName (Spec vm) = [] then clone_path_ops else create_path_ops) \<and>
                      call_name c \<notin> {''Session.CreateVirtualMachine'', ''Session.CloneVirtualMachine''})
            rest"
    by blast
  from r(2) have rest: "list_all (\<lambda>c. call_name c \<notin>
                 (if ImageName (Spec vm) = [] then clone_path_ops else create_path_ops)) rest"
      "list_all (\<lambda>c. call_name c \<notin>
                    {''Session.CreateVirtualMachine'', ''Session.CloneVirtualMachine''}) rest"
    by (simp_all add: list_all_iff)
  have "list_all (\<lambda>c. call_name c \<notin>
               (if ImageName (Spec vm) = [] then clone_path_ops else create_path_ops))
     (calls_since tr (snd (CreateVirtualMachine B vm vmClass vmMetadata profileID tr)))"
    using rest(1) unfolding r(1) calls_since_def
    by (simp add: clone_path_ops_def create_path_ops_def)
  moreover have "\<exists>rest. snd (CreateVirtualMachine B vm vmClass vmMetadata profileID tr) =
          tr @ Call_GetSession (Namespace vm) #
            (if ImageName (Spec vm) = [] then Call_Session_CreateVirtualMachine (Name vm)
             else Call_Session_CloneVirtualMachine (Name vm)) # rest \<and>
        list_all (\<lambda>c. call_name c \<notin>
                    {''Session.CreateVirtualMachine'', ''Session.CloneVirtualMachine''}) rest"
    using r(1) rest(2) by blast
  ultimately show ?thesis by blast
qed

theorem CreateVirtualMachine_one_path_witness:
  "sessions_GetSession backend0 [] (Namespace vm0) = Inr session0 \<and>
   ImageName (Spec vm0) = [] \<and>
   list_all (\<lambda>c. call_name c \<notin> clone_path_ops)
     (calls_since [] (snd (CreateVirtualMachine backend0 vm0 class0 Map.empty [] []))) \<and>
   (\<exists>rest. snd (CreateVirtualMachine backend0 vm0 class0 Map.empty [] []) =
       Call_GetSession (Namespace vm0) # Call_Session_CreateVirtualMachine (Name vm0) # rest \<and>
       list_all (\<lambda>c. call_name c \<notin>
                   {''Session.CreateVirtualMachine'', ''Session.CloneVirtualMachine''}) rest) \<and>
   sessions_GetSession backend0 [] (Namespace (with_image ''photon'' vm0)) = Inr session0 \<and>
   ImageName (Spec (with_image ''photon'' vm0)) = ''photon'' \<and>
   list_all (\<lambda>c. call_name c \<notin> create_path_ops)
     (calls_since []
        (snd (CreateVirtualMachine backend0 (with_image ''photon'' vm0) class0 Map.empty [] []))) \<and>
   (\<exists>rest. snd (CreateVirtualMachine backend0 (with_image ''photon'' vm0) class0 Map.empty [] []) =
       Call_GetSession (Namespace (with_image ''photon'' vm0)) #
       Call_Session_CloneVirtualMachine (Name (with_image ''photon'' vm0)) # rest \<and>
       list_all (\<lambda>c. call_name c \<notin>
                   {''Session.CreateVirtualMachine'', ''Session.CloneVirtualMachine''}) rest)"
proof -
  let ?vm = "with_image ''photon'' vm0"
  have h1: "sessions_GetSession backend0 [] (Namespace vm0) = Inr session0"
    by (simp add: backend0_def)
  have h2: "sessions_GetSession backend0 [] (Namespace ?vm) = Inr session0"
    by (simp add: backend0_def)
  have i1: "ImageName (Spec vm0) = []" by (simp add: vm0_def)
  have i2: "ImageName (Spec ?vm) = ''photon''"
    by (simp add: vm0_def with_image_def)
  note t1 = CreateVirtualMachine_one_path [of vm0 "[]" backend0 class0 Map.empty "[]"]
  note t2 = CreateVirtualMachine_one_path [of ?vm "[]" backend0 class0 Map.empty "[]"]
  from t1 have a1: "list_all (\<lambda>c. call_name c \<notin> clone_path_ops)
     (calls_since [] (snd (CreateVirtualMachine backend0 vm0 class0 Map.empty [] [])))"
    by (simp add: i1)
  from t1 [THEN conjunct2, rule_format, OF h1]
  have b1: "\<exists>rest. snd (CreateVirtualMachine backend0 vm0 class0 Map.empty [] []) =
       Call_GetSession (Namespace vm0) # Call_Session_CreateVirtualMachine (Name vm0) # rest \<and>
       list_all (\<lambda>c. call_name c \<notin>
                   {''Session.CreateVirtualMachine'', ''Session.CloneVirtualMachine''}) rest"
    by (simp add: i1)
  from t2 have a2: "list_all (\<lambda>c. call_name c \<notin> create_path_ops)
     (calls_since [] (snd (CreateVirtualMachine backend0 ?vm class0 Map.empty [] [])))"
    by (simp add: i2)
  from t2 [THEN conjunct2, rule_format, OF h2]
  have b2: "\<exists>rest. snd (CreateVirtualMachine backend0 ?vm class0 Map.empty [] []) =
       Call_GetSession (Namespace ?vm) # Call_Session_CloneVirtualMachine (Name ?vm) # rest \<and>
       list_all (\<lambda>c. call_name c \<notin>
                   {''Session.CreateVirtualMachine'', ''Session.CloneVirtualMachine''}) rest"
    by (simp add: i2)
  from h1 i1 a1 b1 h2 i2 a2 b2 show ?thesis by (intro conjI)
qed

text \<open>
  C6. \<^verbatim>\<open>updateVm\<close> reconfigures first. If the reconfiguration returns an error,
  \<^verbatim>\<open>updateVm\<close> returns that error and the reconfiguration is its only call; if the
  power state is set at all, the reconfiguration returned no error and was called first.
\<close>

theorem updateVm_reconfigure_first:
  "(\<forall>err. vm_Reconfigure B tr resVm configSpec = Some err \<longrightarrow>
      updateVm B vm configSpec resVm tr = (Some err, tr @ [Call_Reconfigure resVm configSpec]) \<and>
      list_all (\<lambda>c. call_name c \<noteq> ''SetPowerState'')
        (calls_since tr (snd (updateVm B vm configSpec resVm tr)))) \<and>
   (list_ex (\<lambda>c. call_name c = ''SetPowerState'')
        (calls_since tr (snd (updateVm B vm configSpec resVm tr))) \<longrightarrow>
      vm_Reconfigure B tr resVm configSpec = None \<and>
      hd (calls_since tr (snd (updateVm B vm configSpec resVm tr))) =
        Call_Reconfigure resVm configSpec)"
  by (cases "vm_Reconfigure B tr resVm configSpec")
     (simp_all add: updateVm_def reconfigureVm_def updatePowerState_def invoke_def calls_since_def
        Let_def split: option.splits prod.splits)

theorem updateVm_reconfigure_first_witness:
  "vm_Reconfigure (backend0\<lparr>vm_Reconfigure := \<lambda>h vm cs. Some (OtherError ''busy'')\<rparr>) [] resVm0
       (deviceChangeOnly []) = Some (OtherError ''busy'') \<and>
   updateVm (backend0\<lparr>vm_Reconfigure := \<lambda>h vm cs. Some (OtherError ''busy'')\<rparr>) vm0
       (deviceChangeOnly []) resVm0 [] =
     (Some (OtherError ''busy''), [Call_Reconfigure resVm0 (deviceChangeOnly [])]) \<and>
   list_ex (\<lambda>c. call_name c = ''SetPowerState'')
     (calls_since [] (snd (updateVm backend0 vm0 (deviceChangeOnly []) resVm0 []))) \<and>
   vm_Reconfigure backend0 [] resVm0 (deviceChangeOnly []) = None"
proof -
  let ?B = "backend0\<lparr>vm_Reconfigure := \<lambda>h vm cs. Some (OtherError ''busy'')\<rparr>"
  have h1: "vm_Reconfigure ?B [] resVm0 (deviceChangeOnly []) = Some (OtherError ''busy'')"
    by simp
  have h2: "list_ex (\<lambda>c. call_name c = ''SetPowerState'')
     (calls_since [] (snd (updateVm backend0 vm0 (deviceChangeOnly []) resVm0 [])))"
    by (simp add: provider_defs invoke_def Let_def calls_since_def backend0_def vm0_def)
  from updateVm_reconfigure_first [of ?B "[]" resVm0 "deviceChangeOnly []" vm0] h1
  have a: "updateVm ?B vm0 (deviceChangeOnly []) resVm0 [] =
     (Some (OtherError ''busy''), [Call_Reconfigure resVm0 (deviceChangeOnly [])])"
    by simp
  from updateVm_reconfigure_first [of backend0 "[]" resVm0 "deviceChangeOnly []" vm0] h2
  have b: "vm_Reconfigure backend0 [] resVm0 (deviceChangeOnly []) = None"
    by blast
  from h1 a h2 b show ?thesis by (intro conjI)
qed

text \<open>
  C10. With an empty power state in the spec, \<^verbatim>\<open>updatePowerState\<close> sets the power state
  \<^verbatim>\<open>VirtualMachinePoweredOn\<close>, and so does \<^verbatim>\<open>updateVm\<close> after a reconfiguration
  without error.
\<close>

theorem updatePowerState_default_on:
  assumes "PowerState (Spec vm) = []"
  shows "snd (updatePowerState B vm resVm tr) =
           tr @ [Call_SetPowerState resVm (VirtualMachinePoweredOn B)] \<and>
         (vm_Reconfigure B tr resVm configSpec = None \<longrightarrow>
            snd (updateVm B vm configSpec resVm tr) =
              tr @ [Call_Reconfigure resVm configSpec,
                    Call_SetPowerState resVm (VirtualMachinePoweredOn B)])"
  using assms
  by (simp add: updatePowerState_def updateVm_def reconfigureVm_def invoke_def Let_def
           split: option.splits prod.splits)

theorem updatePowerState_default_on_witness:
  "PowerState (Spec vm0) = [] \<and>
   snd (updatePowerState backend0 vm0 resVm0 []) = [Call_SetPowerState resVm0 ''poweredOn''] \<and>
   snd (updateVm backend0 vm0 (deviceChangeOnly []) resVm0 []) =
     [Call_Reconfigure resVm0 (deviceChangeOnly []), Call_SetPowerState resVm0 ''poweredOn'']"
proof -
  have h: "PowerState (Spec vm0) = []" by (simp add: vm0_def)
  have r: "vm_Reconfigure backend0 [] resVm0 (deviceChangeOnly []) = None"
    by (simp add: backend0_def)
  have p: "VirtualMachinePoweredOn backend0 = ''poweredOn''" by (simp add: backend0_def)
  from updatePowerState_default_on [OF h, of backend0 resVm0 "[]" "deviceChangeOnly []"] r p h
  show ?thesis by simp
qed

text \<open>
  C8. When the status of the remote VM is obtained, \<^verbatim>\<open>mergeVmStatus\<close> leaves in the VM
  the remote status with the phase the VM had: the phase is unchanged, every other field
  of the status is the remote one.
\<close>

theorem mergeVmStatus_keeps_phase:
  assumes "vm_GetStatus B tr resVm = Inr vmStatus"
  shows "fst (mergeVmStatus B vm resVm tr) = Inr (vm\<lparr>Status := vmStatus\<lparr>Phase := Phase (Status vm)\<rparr>\<rparr>) \<and>
         (\<forall>vm'. fst (mergeVmStatus B vm resVm tr) = Inr vm' \<longrightarrow>
            Phase (Status vm') = Phase (Status vm) \<and>
            StatusPowerState (Status vm') = StatusPowerState vmStatus \<and>
            UniqueId (Status vm') = UniqueId vmStatus \<and>
            InternalRef (Status vm') = InternalRef vmStatus \<and>
            Addresses (Status vm') = Addresses vmStatus)"
  using assms
  by (auto simp add: mergeVmStatus_def invoke_def)

theorem mergeVmStatus_keeps_phase_witness:
  "vm_GetStatus backend0 [] resVm0 = Inr status0 \<and>
   fst (mergeVmStatus backend0 vm0 resVm0 []) = Inr (vm0\<lparr>Status := status0\<lparr>Phase := ''Creating''\<rparr>\<rparr>) \<and>
   Phase status0 \<noteq> Phase (Status vm0)"
proof -
  have h: "vm_GetStatus backend0 [] resVm0 = Inr status0" by (simp add: backend0_def)
  have p: "Phase (Status vm0) = ''Creating''" by (simp add: vm0_def)
  have q: "Phase status0 \<noteq> Phase (Status vm0)" by (simp add: vm0_def status0_def)
  from mergeVmStatus_keeps_phase [OF h, of vm0] p h q show ?thesis by simp
qed

text \<open>
  C1. A delete whose lookup fails returns an error and does not run the delete sequence:
  the session is asked for, the finder is called, and nothing else. A not-found error of
  the finder (either of the two types) comes back as the typed \<open>StatusNotFound\<close> error
  with the kind of a virtual machine and the namespaced name; any other error, a
  multiple-found error among them, comes back as it is. The delete is not reported as
  successful by this function: that is left to its caller.
\<close>

theorem DeleteVirtualMachine_lookup_error:
  assumes ses: "sessions_GetSession B tr (Namespace vm) = Inr ses"
      and lookup: "Finder_VirtualMachine B (tr @ [Call_GetSession (Namespace vm)]) (Name vm) = Inl err"
  shows "DeleteVirtualMachine B vm tr =
           (Some (if err = NotFoundError \<or> err = DefaultNotFoundError
                  then StatusNotFound (InternalVirtualMachine_Kind B) (NamespacedName vm)
                  else err),
            tr @ [Call_GetSession (Namespace vm), Call_Finder_VirtualMachine (Name vm)])"
  using ses lookup
  by (cases err)
     (simp_all add: DeleteVirtualMachine_def GetVirtualMachine_def lookupVm_def invoke_def
        transformVmError_def transformError_def Let_def)

theorem DeleteVirtualMachine_lookup_error_witness:
  "sessions_GetSession (backend0\<lparr>Finder_VirtualMachine := \<lambda>h name. Inl MultipleFoundError\<rparr>) []
       (Namespace vm0) = Inr session0 \<and>
   Finder_VirtualMachine (backend0\<lparr>Finder_VirtualMachine := \<lambda>h name. Inl MultipleFoundError\<rparr>)
       ([] @ [Call_GetSession (Namespace vm0)]) (Name vm0) = Inl MultipleFoundError \<and>
   DeleteVirtualMachine (backend0\<lparr>Finder_VirtualMachine := \<lambda>h name. Inl MultipleFoundError\<rparr>) vm0 [] =
     (Some MultipleFoundError, [Call_GetSession ''ns1'', Call_Finder_VirtualMachine ''web''])"
proof -
  let ?B = "backend0\<lparr>Finder_VirtualMachine := \<lambda>h name. Inl MultipleFoundError\<rparr>"
  have h1: "sessions_GetSession ?B [] (Namespace vm0) = Inr session0"
    by (simp add: backend0_def)
  have h2: "Finder_VirtualMachine ?B ([] @ [Call_GetSession (Namespace vm0)]) (Name vm0) =
              Inl MultipleFoundError"
    by simp
  from DeleteVirtualMachine_lookup_error [OF h1 h2] h1 h2 show ?thesis
    by (simp add: vm0_def)
qed

theorem DeleteVirtualMachine_not_found_counterexample:
  "fst (DeleteVirtualMachine (backend0\<lparr>Finder_VirtualMachine := \<lambda>h name. Inl NotFoundError\<rparr>) vm0 []) =
     Some (StatusNotFound ''VirtualMachine'' ''ns1/web'')"
  by (simp add: DeleteVirtualMachine_def GetVirtualMachine_def lookupVm_def invoke_def
        transformVmError_def transformError_def Let_def backend0_def vm0_def NamespacedName_def)

section \<open>Unsupported metadata transport\<close>

lemma emits_Cons: "emits S tr (tr @ ext) \<longleftrightarrow> only S ext"
  by (simp add: emits_def calls_since_def)

lemma configSpecFromClassSpec_unsupported:
  "VmMetadata vmSpec = Some md \<Longrightarrow> Transport md \<noteq> ''ExtraConfig'' \<Longrightarrow>
   configSpecFromClassSpec s name vmSpec vmClassSpec metadata deviceSpecs =
     Inl (Errorf ''unsupported metadata transport %q'' [Transport md])"
  by (simp add: configSpecFromClassSpec_def Let_def)

lemma Session_CreateVirtualMachine_unsupported:
  assumes "VmMetadata (Spec vm) = Some md" "Transport md \<noteq> ''ExtraConfig''"
  shows "\<exists>e ext. Session_CreateVirtualMachine B s vm vmClassSpec metadata tr =
            (Inl e, tr @ Call_Session_CreateVirtualMachine (Name vm) # ext) \<and>
          only {''CreateVnic''} ext"
  using assms
  by (auto simp: Session_CreateVirtualMachine_def configSpecFromClassSpec_unsupported
           split: prod.splits sum.splits dest!: deviceSpecsFromVM_calls)

lemma getCloneSpec_unsupported:
  assumes "VmMetadata (Spec vm) = Some md" "Transport md \<noteq> ''ExtraConfig''"
  shows "\<exists>e ext. getCloneSpec B s name resSrcVM vm vmClassSpec metadata profileID tr =
            (Inl e, tr @ ext) \<and>
          only {''GetVirtualDisks'', ''GetNetworkDevices'', ''EthernetCardBackingInfo'',
                ''CreateVnic''} ext"
  using assms
  by (auto simp: getCloneSpec_def configSpecFromClassSpec_unsupported list_all_iff
           split: prod.splits sum.splits
           dest!: processStorageClass_calls deviceChangeSpecs_calls)

lemma Session_CloneVirtualMachine_unsupported:
  assumes md: "VmMetadata (Spec vm) = Some md" "Transport md \<noteq> ''ExtraConfig''"
      and lib: "contentlib s = None"
  shows "\<exists>e ext. Session_CloneVirtualMachine B s vm vmClassSpec metadata profileID tr =
            (Inl e, tr @ Call_Session_CloneVirtualMachine (Name vm) # ext) \<and>
          only {''Finder.VirtualMachine'', ''NewVMFromObject'', ''GetVirtualDisks'',
                ''GetNetworkDevices'', ''EthernetCardBackingInfo'', ''CreateVnic''} ext"
proof -
  let ?tr0 = "tr @ [Call_Session_CloneVirtualMachine (Name vm)]"
  obtain r1 tr1 where l: "lookupVm B (ImageName (Spec vm)) ?tr0 = (r1, tr1)"
    by (cases "lookupVm B (ImageName (Spec vm)) ?tr0")
  from lookupVm_calls [OF l] obtain e1 where
    e1: "tr1 = ?tr0 @ e1" "only {''Finder.VirtualMachine'', ''NewVMFromObject''} e1" by blast
  show ?thesis
  proof (cases r1)
    case (Inl err)
    then show ?thesis using l e1 lib
      by (auto simp: Session_CloneVirtualMachine_def Let_def list_all_iff)
  next
    case (Inr resSrcVm)
    from getCloneSpec_unsupported [OF md, of B s "Name vm" resSrcVm vmClassSpec metadata profileID tr1]
    obtain e e2 where
      g: "getCloneSpec B s (Name vm) resSrcVm vm vmClassSpec metadata profileID tr1 = (Inl e, tr1 @ e2)"
         "only {''GetVirtualDisks'', ''GetNetworkDevices'', ''EthernetCardBackingInfo'',
                ''CreateVnic''} e2" by blast
    show ?thesis using l e1 lib Inr g
      by (auto simp: Session_CloneVirtualMachine_def Let_def list_all_iff)
  qed
qed

lemma UpdateVirtualMachine_unsupported:
  assumes "VmMetadata (Spec vm) = Some md" "Transport md \<noteq> ''ExtraConfig''"
  shows "\<exists>e ext. UpdateVirtualMachine B vm vmClassSpec metadata tr = (Inl e, tr @ ext) \<and>
          only {''GetSession'', ''Finder.VirtualMachine'', ''NewVMFromObject'',
                ''GetNetworkDevices'', ''EthernetCardBackingInfo'', ''CreateVnic''} ext"
  using assms
  by (auto simp: UpdateVirtualMachine_def GetVirtualMachine_def Let_def invoke_eq
                 configSpecFromClassSpec_unsupported list_all_iff
           split: prod.splits sum.splits
           dest!: lookupVm_calls deviceChangeSpecs_calls)

lemma transformVmError_Errorf:
  "transformVmError B resource (Errorf f args) = Errorf f args"
  by (simp add: transformVmError_def transformError_def)

lemma Session_CreateVirtualMachine_unsupported_exact:
  assumes "VmMetadata (Spec vm) = Some md" "Transport md \<noteq> ''ExtraConfig''"
      and "deviceSpecsFromVM B vm (tr @ [Call_Session_CreateVirtualMachine (Name vm)]) =
             (Inr deviceSpecs, tr1)"
  shows "Session_CreateVirtualMachine B s vm vmClassSpec metadata tr =
           (Inl (Errorf ''unsupported metadata transport %q'' [Transport md]), tr1)"
  using assms
  by (simp add: Session_CreateVirtualMachine_def configSpecFromClassSpec_unsupported)

lemma Session_CloneVirtualMachine_unsupported_exact:
  assumes "VmMetadata (Spec vm) = Some md" "Transport md \<noteq> ''ExtraConfig''"
      and "contentlib s = None"
      and "lookupVm B (ImageName (Spec vm)) (tr @ [Call_Session_CloneVirtualMachine (Name vm)]) =
             (Inr resSrcVm, tr1)"
      and "processStorageClass B resSrcVm profileID tr1 = (Inr vdcs, tr2)"
      and "deviceChangeSpecs B s vm resSrcVm tr2 = (Inr deviceSpecs, tr3)"
  shows "Session_CloneVirtualMachine B s vm vmClassSpec metadata profileID tr =
           (Inl (Wrap (Errorf ''unsupported metadata transport %q'' [Transport md])
                   ''failed to create clone spec from %q'' [ResName resSrcVm]), tr3)"
  using assms
  by (cases vdcs)
     (simp add: Session_CloneVirtualMachine_def getCloneSpec_def Let_def
        configSpecFromClassSpec_unsupported)

lemma UpdateVirtualMachine_unsupported_exact:
  assumes "VmMetadata (Spec vm) = Some md" "Transport md \<noteq> ''ExtraConfig''"
      and "sessions_GetSession B tr (Namespace vm) = Inr ses"
      and "GetVirtualMachine B (Name vm) (tr @ [Call_GetSession (Namespace vm)]) = (Inr resVm, tr2)"
      and "deviceChangeSpecs B ses vm resVm tr2 = (Inr deviceSpecs, tr3)"
  shows "UpdateVirtualMachine B vm vmClassSpec metadata tr =
           (Inl (Errorf ''unsupported metadata transport %q'' [Transport md]), tr3)"
  using assms
  by (simp add: UpdateVirtualMachine_def Let_def invoke_def configSpecFromClassSpec_unsupported
        transformVmError_Errorf)

lemma GetVirtualMachine_found_calls:
  "GetVirtualMachine B name tr = (Inr resVm, tr') \<Longrightarrow>
     \<exists>objVm. tr' = tr @ [Call_Finder_VirtualMachine name, Call_NewVMFromObject objVm]"
  unfolding GetVirtualMachine_def by (rule lookupVm_found_calls)

text \<open>
  C7. For a spec whose metadata names a transport other than \<^verbatim>\<open>ExtraConfig\<close>,
  \<^verbatim>\<open>configSpecFromClassSpec\<close> returns the unsupported-transport error and no
  descriptor. Each caller that builds the descriptor makes the calls that come before
  the build, returns that error and makes no call after it:
  \<^verbatim>\<open>Session.CreateVirtualMachine\<close>, once the new devices are built, has created one vnic
  for each interface and returns the error without create or power-on;
  \<^verbatim>\<open>Session.CloneVirtualMachine\<close> without a content library, once the source VM is found
  and its disks and devices are processed, has looked the source up and listed its
  devices and returns the error, wrapped, without placement or clone;
  \<^verbatim>\<open>UpdateVirtualMachine\<close>, once the session and the VM are found and the device changes
  are built, has fetched the session, looked the VM up and listed its devices and
  returns the error without reconfigure or set-power-state. Whatever the collaborators
  answer, each of the three returns an error and calls nothing but these operations.
\<close>

theorem unsupported_transport_rejected:
  assumes md: "VmMetadata (Spec vm) = Some md" and tp: "Transport md \<noteq> ''ExtraConfig''"
  shows "configSpecFromClassSpec s name (Spec vm) vmClassSpec metadata deviceSpecs =
           Inl (Errorf ''unsupported metadata transport %q'' [Transport md]) \<and>
         (\<forall>specs tr1.
            deviceSpecsFromVM B vm (tr @ [Call_Session_CreateVirtualMachine (Name vm)]) =
              (Inr specs, tr1) \<longrightarrow>
            Session_CreateVirtualMachine B s vm vmClassSpec metadata tr =
              (Inl (Errorf ''unsupported metadata transport %q'' [Transport md]), tr1) \<and>
            (\<exists>ext. tr1 = tr @ Call_Session_CreateVirtualMachine (Name vm) # ext \<and>
               length ext = length (NetworkInterfaces (Spec vm)) \<and> only {''CreateVnic''} ext)) \<and>
         isl (fst (Session_CreateVirtualMachine B s vm vmClassSpec metadata tr)) \<and>
         emits {''Session.CreateVirtualMachine'', ''CreateVnic''} tr
           (snd (Session_CreateVirtualMachine B s vm vmClassSpec metadata tr)) \<and>
         (\<forall>resSrcVm tr1 vdcs tr2 specs tr3.
            contentlib s = None \<and>
            lookupVm B (ImageName (Spec vm)) (tr @ [Call_Session_CloneVirtualMachine (Name vm)]) =
              (Inr resSrcVm, tr1) \<and>
            processStorageClass B resSrcVm profileID tr1 = (Inr vdcs, tr2) \<and>
            deviceChangeSpecs B s vm resSrcVm tr2 = (Inr specs, tr3) \<longrightarrow>
            Session_CloneVirtualMachine B s vm vmClassSpec metadata profileID tr =
              (Inl (Wrap (Errorf ''unsupported metadata transport %q'' [Transport md])
                      ''failed to create clone spec from %q'' [ResName resSrcVm]), tr3) \<and>
            (\<exists>objVm ext1 ext2.
               tr3 = tr @ [Call_Session_CloneVirtualMachine (Name vm),
                           Call_Finder_VirtualMachine (ImageName (Spec vm)),
                           Call_NewVMFromObject objVm] @
                     ext1 @ Call_GetNetworkDevices resSrcVm # ext2)) \<and>
         (contentlib s = None \<longrightarrow>
            isl (fst (Session_CloneVirtualMachine B s vm vmClassSpec metadata profileID tr)) \<and>
            emits {''Session.CloneVirtualMachine'', ''Finder.VirtualMachine'', ''NewVMFromObject'',
                   ''GetVirtualDisks'', ''GetNetworkDevices'', ''EthernetCardBackingInfo'',
                   ''CreateVnic''} tr
              (snd (Session_CloneVirtualMachine B s vm vmClassSpec metadata profileID tr))) \<and>
         (\<forall>ses resVm tr2 specs tr3.
            sessions_GetSession B tr (Namespace vm) = Inr ses \<and>
            GetVirtualMachine B (Name vm) (tr @ [Call_GetSession (Namespace vm)]) = (Inr resVm, tr2) \<and>
            deviceChangeSpecs B ses vm resVm tr2 = (Inr specs, tr3) \<longrightarrow>
            UpdateVirtualMachine B vm vmClassSpec metadata tr =
              (Inl (Errorf ''unsupported metadata transport %q'' [Transport md]), tr3) \<and>
            (\<exists>objVm ext.
               tr3 = tr @ [Call_GetSession (Namespace vm), Call_Finder_VirtualMachine (Name vm),
                           Call_NewVMFromObject objVm, Call_GetNetworkDevices resVm] @ ext)) \<and>
         isl (fst (UpdateVirtualMachine B vm vmClassSpec metadata tr)) \<and>
         emits {''GetSession'', ''Finder.VirtualMachine'', ''NewVMFromObject'',
                ''GetNetworkDevices'', ''EthernetCardBackingInfo'', ''CreateVnic''} tr
           (snd (UpdateVirtualMachine B vm vmClassSpec metadata tr))"
proof -
  have c1: "(\<forall>specs tr1.
            deviceSpecsFromVM B vm (tr @ [Call_Session_CreateVirtualMachine (Name vm)]) =
              (Inr specs, tr1) \<longrightarrow>
            Session_CreateVirtualMachine B s vm vmClassSpec metadata tr =
              (Inl (Errorf ''unsupported metadata transport %q'' [Transport md]), tr1) \<and>
            (\<exists>ext. tr1 = tr @ Call_Session_CreateVirtualMachine (Name vm) # ext \<and>
               length ext = length (NetworkInterfaces (Spec vm)) \<and> only {''CreateVnic''} ext))"
  proof (intro allI impI)
    fix specs tr1
    assume a: "deviceSpecsFromVM B vm (tr @ [Call_Session_CreateVirtualMachine (Name vm)]) =
                 (Inr specs, tr1)"
    from deviceSpecsFromVM_loop_built_calls [OF a [unfolded deviceSpecsFromVM_def]]
    obtain ext where "tr1 = (tr @ [Call_Session_CreateVirtualMachine (Name vm)]) @ ext"
      "length ext = length (NetworkInterfaces (Spec vm))" "only {''CreateVnic''} ext"
      by blast
    then have "\<exists>ext. tr1 = tr @ Call_Session_CreateVirtualMachine (Name vm) # ext \<and>
               length ext = length (NetworkInterfaces (Spec vm)) \<and> only {''CreateVnic''} ext"
      by simp
    with Session_CreateVirtualMachine_unsupported_exact [OF md tp a]
    show "Session_CreateVirtualMachine B s vm vmClassSpec metadata tr =
              (Inl (Errorf ''unsupported metadata transport %q'' [Transport md]), tr1) \<and>
            (\<exists>ext. tr1 = tr @ Call_Session_CreateVirtualMachine (Name vm) # ext \<and>
               length ext = length (NetworkInterfaces (Spec vm)) \<and> only {''CreateVnic''} ext)"
      by blast
  qed
  from Session_CreateVirtualMachine_unsupported [OF md tp, of B s vmClassSpec metadata tr]
  have c2: "isl (fst (Session_CreateVirtualMachine B s vm vmClassSpec metadata tr)) \<and>
         emits {''Session.CreateVirtualMachine'', ''CreateVnic''} tr
           (snd (Session_CreateVirtualMachine B s vm vmClassSpec metadata tr))"
    by (auto simp: emits_Cons list_all_iff)
  have k1: "(\<forall>resSrcVm tr1 vdcs tr2 specs tr3.
            contentlib s = None \<and>
            lookupVm B (ImageName (Spec vm)) (tr @ [Call_Session_CloneVirtualMachine (Name vm)]) =
              (Inr resSrcVm, tr1) \<and>
            processStorageClass B resSrcVm profileID tr1 = (Inr vdcs, tr2) \<and>
            deviceChangeSpecs B s vm resSrcVm tr2 = (Inr specs, tr3) \<longrightarrow>
            Session_CloneVirtualMachine B s vm vmClassSpec metadata profileID tr =
              (Inl (Wrap (Errorf ''unsupported metadata transport %q'' [Transport md])
                      ''failed to create clone spec from %q'' [ResName resSrcVm]), tr3) \<and>
            (\<exists>objVm ext1 ext2.
               tr3 = tr @ [Call_Session_CloneVirtualMachine (Name vm),
                           Call_Finder_VirtualMachine (ImageName (Spec vm)),
                           Call_NewVMFromObject objVm] @
                     ext1 @ Call_GetNetworkDevices resSrcVm # ext2))"
  proof (intro allI impI, elim conjE)
    fix resSrcVm tr1 vdcs tr2 specs tr3
    assume n: "contentlib s = None"
      and a: "lookupVm B (ImageName (Spec vm)) (tr @ [Call_Session_CloneVirtualMachine (Name vm)]) =
                (Inr resSrcVm, tr1)"
      and b: "processStorageClass B resSrcVm profileID tr1 = (Inr vdcs, tr2)"
      and c: "deviceChangeSpecs B s vm resSrcVm tr2 = (Inr specs, tr3)"
    from lookupVm_found_calls [OF a] obtain objVm where
      t1: "tr1 = (tr @ [Call_Session_CloneVirtualMachine (Name vm)]) @
                   [Call_Finder_VirtualMachine (ImageName (Spec vm)), Call_NewVMFromObject objVm]"
      by blast
    from processStorageClass_calls [OF b] obtain ext1 where t2: "tr2 = tr1 @ ext1" by blast
    from deviceChangeSpecs_first_call [OF c] obtain ext2 where
      t3: "tr3 = tr2 @ Call_GetNetworkDevices resSrcVm # ext2" by blast
    have "tr3 = tr @ [Call_Session_CloneVirtualMachine (Name vm),
                      Call_Finder_VirtualMachine (ImageName (Spec vm)),
                      Call_NewVMFromObject objVm] @
                ext1 @ Call_GetNetworkDevices resSrcVm # ext2"
      by (simp add: t1 t2 t3)
    with Session_CloneVirtualMachine_unsupported_exact [OF md tp n a b c]
    show "Session_CloneVirtualMachine B s vm vmClassSpec metadata profileID tr =
              (Inl (Wrap (Errorf ''unsupported metadata transport %q'' [Transport md])
                      ''failed to create clone spec from %q'' [ResName resSrcVm]), tr3) \<and>
            (\<exists>objVm ext1 ext2.
               tr3 = tr @ [Call_Session_CloneVirtualMachine (Name vm),
                           Call_Finder_VirtualMachine (ImageName (Spec vm)),
                           Call_NewVMFromObject objVm] @
                     ext1 @ Call_GetNetworkDevices resSrcVm # ext2)"
      by blast
  qed
  have k2: "(contentlib s = None \<longrightarrow>
            isl (fst (Session_CloneVirtualMachine B s vm vmClassSpec metadata profileID tr)) \<and>
            emits {''Session.CloneVirtualMachine'', ''Finder.VirtualMachine'', ''NewVMFromObject'',
                   ''GetVirtualDisks'', ''GetNetworkDevices'', ''EthernetCardBackingInfo'',
                   ''CreateVnic''} tr
              (snd (Session_CloneVirtualMachine B s vm vmClassSpec metadata profileID tr)))"
  proof
    assume "contentlib s = None"
    from Session_CloneVirtualMachine_unsupported [OF md tp this, of B vmClassSpec metadata profileID tr]
    show "isl (fst (Session_CloneVirtualMachine B s vm vmClassSpec metadata profileID tr)) \<and>
            emits {''Session.CloneVirtualMachine'', ''Finder.VirtualMachine'', ''NewVMFromObject'',
                   ''GetVirtualDisks'', ''GetNetworkDevices'', ''EthernetCardBackingInfo'',
                   ''CreateVnic''} tr
              (snd (Session_CloneVirtualMachine B s vm vmClassSpec metadata profileID tr))"
      by (auto simp: emits_Cons list_all_iff)
  qed
  have u1: "(\<forall>ses resVm tr2 specs tr3.
            sessions_GetSession B tr (Namespace vm) = Inr ses \<and>
            GetVirtualMachine B (Name vm) (tr @ [Call_GetSession (Namespace vm)]) = (Inr resVm, tr2) \<and>
            deviceChangeSpecs B ses vm resVm tr2 = (Inr specs, tr3) \<longrightarrow>
            UpdateVirtualMachine B vm vmClassSpec metadata tr =
              (Inl (Errorf ''unsupported metadata transport %q'' [Transport md]), tr3) \<and>
            (\<exists>objVm ext.
               tr3 = tr @ [Call_GetSession (Namespace vm), Call_Finder_VirtualMachine (Name vm),
                           Call_NewVMFromObject objVm, Call_GetNetworkDevices resVm] @ ext))"
  proof (intro allI impI, elim conjE)
    fix ses resVm tr2 specs tr3
    assume a: "sessions_GetSession B tr (Namespace vm) = Inr ses"
      and b: "GetVirtualMachine B (Name vm) (tr @ [Call_GetSession (Namespace vm)]) = (Inr resVm, tr2)"
      and c: "deviceChangeSpecs B ses vm resVm tr2 = (Inr specs, tr3)"
    from GetVirtualMachine_found_calls [OF b] obtain objVm where
      t2: "tr2 = (tr @ [Call_GetSession (Namespace vm)]) @
                   [Call_Finder_VirtualMachine (Name vm), Call_NewVMFromObject objVm]" by blast
    from deviceChangeSpecs_first_call [OF c] obtain ext where
      t3: "tr3 = tr2 @ Call_GetNetworkDevices resVm # ext" by blast
    have "tr3 = tr @ [Call_GetSession (Namespace vm), Call_Finder_VirtualMachine (Name vm),
                      Call_NewVMFromObject objVm, Call_GetNetworkDevices resVm] @ ext"
      by (simp add: t2 t3)
    with UpdateVirtualMachine_unsupported_exact [OF md tp a b c]
    show "UpdateVirtualMachine B vm vmClassSpec metadata tr =
              (Inl (Errorf ''unsupported metadata transport %q'' [Transport md]), tr3) \<and>
            (\<exists>objVm ext.
               tr3 = tr @ [Call_GetSession (Namespace vm), Call_Finder_VirtualMachine (Name vm),
                           Call_NewVMFromObject objVm, Call_GetNetworkDevices resVm] @ ext)"
      by blast
  qed
  from UpdateVirtualMachine_unsupported [OF md tp, of B vmClassSpec metadata tr]
  have u2: "isl (fst (UpdateVirtualMachine B vm vmClassSpec metadata tr)) \<and>
         emits {''GetSession'', ''Finder.VirtualMachine'', ''NewVMFromObject'',
                ''GetNetworkDevices'', ''EthernetCardBackingInfo'', ''CreateVnic''} tr
           (snd (UpdateVirtualMachine B vm vmClassSpec metadata tr))"
    by (auto simp: emits_Cons list_all_iff)
  from configSpecFromClassSpec_unsupported [OF md tp, of s name vmClassSpec metadata deviceSpecs]
       c1 c2 k1 k2 u1 u2
  show ?thesis by (intro conjI) (erule conjunct1 conjunct2 | assumption)+
qed

theorem unsupported_transport_rejected_witness:
  "VmMetadata (Spec (with_interfaces [vif0] (with_transport ''CloudInit'' vm0))) =
     Some \<lparr>Transport = ''CloudInit''\<rparr> \<and>
   Transport \<lparr>Transport = ''CloudInit''\<rparr> \<noteq> ''ExtraConfig'' \<and>
   configSpecFromClassSpec session0 ''web''
       (Spec (with_interfaces [vif0] (with_transport ''CloudInit'' vm0))) class0 Map.empty [] =
     Inl (Errorf ''unsupported metadata transport %q'' [''CloudInit'']) \<and>
   Session_CreateVirtualMachine backend0 session0
       (with_interfaces [vif0] (with_transport ''CloudInit'' vm0)) class0 Map.empty [] =
     (Inl (Errorf ''unsupported metadata transport %q'' [''CloudInit'']),
      [Call_Session_CreateVirtualMachine ''web'', Call_CreateVnic DefaultNetworkProvider vif0]) \<and>
   UpdateVirtualMachine backend0 (with_interfaces [vif0] (with_transport ''CloudInit'' vm0))
       class0 Map.empty [] =
     (Inl (Errorf ''unsupported metadata transport %q'' [''CloudInit'']),
      [Call_GetSession ''ns1'', Call_Finder_VirtualMachine ''web'',
       Call_NewVMFromObject ''vm-42'', Call_GetNetworkDevices resVm0,
       Call_CreateVnic DefaultNetworkProvider vif0])"
proof -
  let ?vm = "with_interfaces [vif0] (with_transport ''CloudInit'' vm0)"
  let ?md = "\<lparr>Transport = ''CloudInit''\<rparr>"
  let ?add = "deviceConfigSpec \<lparr>Key = - 100, Backing = ''VM Network'', DeviceInfo = ''vmxnet3''\<rparr>
                OperationAdd"
  let ?tr1 = "[Call_Session_CreateVirtualMachine ''web'', Call_CreateVnic DefaultNetworkProvider vif0]"
  let ?tr2 = "[Call_GetSession ''ns1'', Call_Finder_VirtualMachine ''web'',
               Call_NewVMFromObject ''vm-42'']"
  let ?tr3 = "[Call_GetSession ''ns1'', Call_Finder_VirtualMachine ''web'',
               Call_NewVMFromObject ''vm-42'', Call_GetNetworkDevices resVm0,
               Call_CreateVnic DefaultNetworkProvider vif0]"
  have h1: "VmMetadata (Spec ?vm) = Some ?md"
    by (simp add: with_transport_def with_interfaces_def)
  have h2: "Transport ?md \<noteq> ''ExtraConfig''" by simp
  have nm: "Name ?vm = ''web''" "Namespace ?vm = ''ns1''"
    by (simp_all add: with_transport_def with_interfaces_def vm0_def)
  have p: "deviceSpecsFromVM backend0 ?vm ([] @ [Call_Session_CreateVirtualMachine (Name ?vm)]) =
             (Inr [?add], ?tr1)"
    unfolding nm
    by (simp add: deviceSpecsFromVM_def getNetworkProviderByType_def invoke_def setVnicKey_def
          with_interfaces_def vif0_def backend0_def)
  have a: "sessions_GetSession backend0 [] (Namespace ?vm) = Inr session0"
    unfolding nm by (simp add: backend0_def)
  have b: "GetVirtualMachine backend0 (Name ?vm) ([] @ [Call_GetSession (Namespace ?vm)]) =
             (Inr resVm0, ?tr2)"
    unfolding nm
    by (simp add: GetVirtualMachine_def lookupVm_def invoke_def backend0_def resVm0_def)
  have c: "deviceChangeSpecs backend0 session0 ?vm resVm0 ?tr2 =
             (Inr [deviceConfigSpec (nic 4000) OperationRemove,
                   deviceConfigSpec (nic 4001) OperationRemove, ?add], ?tr3)"
    by (simp add: deviceChangeSpecs_def deviceSpecsFromVM_def getNetworkProviderByType_def
          invoke_def setVnicKey_def with_interfaces_def vif0_def backend0_def)
  note t = unsupported_transport_rejected [OF h1 h2, of session0 "''web''" class0 Map.empty "[]"
             backend0 "[]" "[]"]
  from t have d: "configSpecFromClassSpec session0 ''web'' (Spec ?vm) class0 Map.empty [] =
     Inl (Errorf ''unsupported metadata transport %q'' [''CloudInit''])"
    by simp
  from t have "\<forall>specs tr1.
            deviceSpecsFromVM backend0 ?vm ([] @ [Call_Session_CreateVirtualMachine (Name ?vm)]) =
              (Inr specs, tr1) \<longrightarrow>
            Session_CreateVirtualMachine backend0 session0 ?vm class0 Map.empty [] =
              (Inl (Errorf ''unsupported metadata transport %q'' [Transport ?md]), tr1) \<and>
            (\<exists>ext. tr1 = [] @ Call_Session_CreateVirtualMachine (Name ?vm) # ext \<and>
               length ext = length (NetworkInterfaces (Spec ?vm)) \<and> only {''CreateVnic''} ext)"
    by (elim conjE)
  from this [rule_format, OF p]
  have e: "Session_CreateVirtualMachine backend0 session0 ?vm class0 Map.empty [] =
     (Inl (Errorf ''unsupported metadata transport %q'' [''CloudInit'']), ?tr1)"
    by simp
  from t have "\<forall>ses resVm tr2 specs tr3.
            sessions_GetSession backend0 [] (Namespace ?vm) = Inr ses \<and>
            GetVirtualMachine backend0 (Name ?vm) ([] @ [Call_GetSession (Namespace ?vm)]) =
              (Inr resVm, tr2) \<and>
            deviceChangeSpecs backend0 ses ?vm resVm tr2 = (Inr specs, tr3) \<longrightarrow>
            UpdateVirtualMachine backend0 ?vm class0 Map.empty [] =
              (Inl (Errorf ''unsupported metadata transport %q'' [Transport ?md]), tr3) \<and>
            (\<exists>objVm ext.
               tr3 = [] @ [Call_GetSession (Namespace ?vm), Call_Finder_VirtualMachine (Name ?vm),
                           Call_NewVMFromObject objVm, Call_GetNetworkDevices resVm] @ ext)"
    by (elim conjE)
  from this [rule_format, OF conjI [OF a conjI [OF b c]]]
  have f: "UpdateVirtualMachine backend0 ?vm class0 Map.empty [] =
     (Inl (Errorf ''unsupported metadata transport %q'' [''CloudInit'']), ?tr3)"
    by simp
  from h1 h2 d e f show ?thesis by (intro conjI)
qed

text \<open>
  The calls made for a spec with the transport \<^verbatim>\<open>CloudInit\<close>: an update looks the VM up
  and lists its devices, a create with one interface creates the vnic, before the
  error is returned.
\<close>

theorem unsupported_transport_lookups_counterexample:
  "VmMetadata (Spec (with_transport ''CloudInit'' vm0)) = Some \<lparr>Transport = ''CloudInit''\<rparr> \<and>
   UpdateVirtualMachine backend0 (with_transport ''CloudInit'' vm0) class0 Map.empty [] =
     (Inl (Errorf ''unsupported metadata transport %q'' [''CloudInit'']),
      [Call_GetSession ''ns1'', Call_Finder_VirtualMachine ''web'',
       Call_NewVMFromObject ''vm-42'', Call_GetNetworkDevices resVm0]) \<and>
   VmMetadata (Spec (with_interfaces [vif0] (with_transport ''CloudInit'' vm0))) =
     Some \<lparr>Transport = ''CloudInit''\<rparr> \<and>
   Session_CreateVirtualMachine backend0 session0
       (with_interfaces [vif0] (with_transport ''CloudInit'' vm0)) class0 Map.empty [] =
     (Inl (Errorf ''unsupported metadata transport %q'' [''CloudInit'']),
      [Call_Session_CreateVirtualMachine ''web'', Call_CreateVnic DefaultNetworkProvider vif0])"
  by (simp add: session_defs provider_defs example_defs)

text \<open>
  \<^verbatim>\<open>Session.CloneVirtualMachine\<close> with a content library deploys the library item and
  reconfigures the devices only; \<^verbatim>\<open>configSpecFromClassSpec\<close> is not called on that path.
\<close>

lemma unsupported_transport_deploy_path:
  "VmMetadata (Spec (with_transport ''CloudInit'' (with_image ''photon'' vm0))) =
     Some \<lparr>Transport = ''CloudInit''\<rparr> \<and>
   \<not> isl (fst (CreateVirtualMachine
                 (backend0\<lparr>sessions_GetSession :=
                    \<lambda>h ns. Inr (session0\<lparr>contentlib := Some ''library-1''\<rparr>)\<rparr>)
                 (with_transport ''CloudInit'' (with_image ''photon'' vm0))
                 class0 Map.empty ''gold'' [])) \<and>
   map call_name
     (snd (CreateVirtualMachine
             (backend0\<lparr>sessions_GetSession :=
                \<lambda>h ns. Inr (session0\<lparr>contentlib := Some ''library-1''\<rparr>)\<rparr>)
             (with_transport ''CloudInit'' (with_image ''photon'' vm0))
             class0 Map.empty ''gold'' [])) =
     [''GetSession'', ''Session.CloneVirtualMachine'',
      ''Login'', ''FindLibraryItems'', ''GetLibraryItem'', ''Logout'',
      ''ParseAndRetrievePropsFromLibraryItem'',
      ''Login'', ''DeployLibraryItem'', ''Logout'',
      ''Finder.ObjectReference'', ''NewVMFromObject'',
      ''GetNetworkDevices'', ''Reconfigure'', ''GetStatus'']"
  by (simp add: session_defs provider_defs example_defs)

end
